theory Spec2Isabelle
  imports Main "HOL-Library.Sublist"
begin

section \<open>JavaScript strings\<close>

text \<open>
  A JavaScript string is modelled as a \<^typ>\<open>string\<close>, one \<^typ>\<open>char\<close> per code unit, and
  the case mappings and \<open>trim\<close> act on the ASCII range: \<open>toLowerCase\<close> maps \<open>A\<close>..\<open>Z\<close> to
  \<open>a\<close>..\<open>z\<close>, \<open>toUpperCase\<close> maps \<open>a\<close>..\<open>z\<close> to \<open>A\<close>..\<open>Z\<close>, every other code unit is kept,
  and the white space that \<open>trim\<close> strips is tab, line feed, vertical tab, form feed,
  carriage return and space. Unicode case mappings and white space beyond ASCII are not
  modelled.
\<close>

definition isWhiteSpace :: "char \<Rightarrow> bool" where
  "isWhiteSpace c = (of_char c \<in> {9, 10, 11, 12, 13, 32 :: nat})"

definition trim :: "string \<Rightarrow> string" where
  "trim s = rev (dropWhile isWhiteSpace (rev (dropWhile isWhiteSpace s)))"

definition toLowerChar :: "char \<Rightarrow> char" where
  "toLowerChar c =
     (let n = of_char c :: nat in if 65 \<le> n \<and> n \<le> 90 then char_of (n + 32) else c)"

definition toUpperChar :: "char \<Rightarrow> char" where
  "toUpperChar c =
     (let n = of_char c :: nat in if 97 \<le> n \<and> n \<le> 122 then char_of (n - 32) else c)"

definition toLowerCase :: "string \<Rightarrow> string" where
  "toLowerCase s = map toLowerChar s"

definition toUpperCase :: "string \<Rightarrow> string" where
  "toUpperCase s = map toUpperChar s"

text \<open>\<open>s.includes(t)\<close>: \<open>t\<close> occurs in \<open>s\<close> as a contiguous run of code units.\<close>

fun js_includes :: "string \<Rightarrow> string \<Rightarrow> bool" where
  "js_includes [] t = (t = [])"
| "js_includes (x # xs) t = (prefix t (x # xs) \<or> js_includes xs t)"

section \<open>The client: types of \<open>App.tsx\<close>\<close>

record Ingredient =
  ingredient_id :: string
  ingredient_name :: string

record RecipeIngredient =
  ri_name :: string
  ri_quantity :: string
  ri_unit :: string

record Recipe =
  recipe_id :: string
  recipe_name :: string
  recipe_ingredients :: "RecipeIngredient list"
  recipe_instructions :: string
  recipe_isCustom :: bool

definition Margarita :: Recipe where
  "Margarita =
     \<lparr>recipe_id = ''1'', recipe_name = ''Margarita'',
      recipe_ingredients =
        [\<lparr>ri_name = ''Tequila'', ri_quantity = ''2'', ri_unit = ''oz''\<rparr>,
         \<lparr>ri_name = ''Lime Juice'', ri_quantity = ''1'', ri_unit = ''oz''\<rparr>,
         \<lparr>ri_name = ''Triple Sec'', ri_quantity = ''1'', ri_unit = ''oz''\<rparr>],
      recipe_instructions = ''Shake with ice and strain into a salt-rimmed glass.'',
      recipe_isCustom = False\<rparr>"

definition Old_Fashioned :: Recipe where
  "Old_Fashioned =
     \<lparr>recipe_id = ''2'', recipe_name = ''Old Fashioned'',
      recipe_ingredients =
        [\<lparr>ri_name = ''Bourbon'', ri_quantity = ''2'', ri_unit = ''oz''\<rparr>,
         \<lparr>ri_name = ''Simple Syrup'', ri_quantity = ''0.5'', ri_unit = ''oz''\<rparr>,
         \<lparr>ri_name = ''Angostura Bitters'', ri_quantity = ''2'', ri_unit = ''dashes''\<rparr>],
      recipe_instructions = ''Stir with ice and strain into a rocks glass.'',
      recipe_isCustom = False\<rparr>"

definition STANDARD_RECIPES :: "Recipe list" where
  "STANDARD_RECIPES = [Margarita, Old_Fashioned]"

section \<open>The client: \<open>useRecipeFilter\<close>\<close>

text \<open>
  \<open>canMakeRecipe\<close> is the callback of \<open>useRecipeFilter\<close>; it closes over the hook's
  \<open>ingredients\<close> argument, which is its first argument here. \<open>every\<close> is \<^const>\<open>list_all\<close>
  and \<open>Array.prototype.includes\<close> on strings is membership.
\<close>

definition canMakeRecipe :: "Ingredient list \<Rightarrow> Recipe \<Rightarrow> bool" where
  "canMakeRecipe ingredients recipe =
     (let ingredientNames = map (\<lambda>i. toLowerCase (ingredient_name i)) ingredients
      in list_all (\<lambda>ri. toLowerCase (ri_name ri) \<in> set ingredientNames)
           (recipe_ingredients recipe))"

text \<open>\<open>if (search)\<close> tests the string for truthiness: it holds for every non-empty string.\<close>

definition useRecipeFilter ::
    "Recipe list \<Rightarrow> Ingredient list \<Rightarrow> string \<Rightarrow> bool \<Rightarrow> Recipe list" where
  "useRecipeFilter recipes ingredients search showMakeable =
     (let filtered = recipes;
          filtered =
            (if search \<noteq> []
             then filter (\<lambda>r. js_includes (toLowerCase (recipe_name r)) (toLowerCase search))
                    filtered
             else filtered);
          filtered =
            (if showMakeable then filter (canMakeRecipe ingredients) filtered else filtered)
      in filtered)"

section \<open>The client: \<open>availableSuggestions\<close>\<close>

text \<open>
  \<open>s.split(" ")\<close> cuts the string at every single space; an empty string gives one empty
  piece, and two adjacent spaces give an empty piece between them.
\<close>

fun split_on :: "char \<Rightarrow> string \<Rightarrow> string list" where
  "split_on sep [] = [[]]"
| "split_on sep (c # cs) =
     (if c = sep then [] # split_on sep cs
      else (case split_on sep cs of [] \<Rightarrow> [[c]] | w # ws \<Rightarrow> (c # w) # ws))"

fun join :: "string \<Rightarrow> string list \<Rightarrow> string" where
  "join sep [] = []"
| "join sep [w] = w"
| "join sep (w # ws) = w @ sep @ join sep ws"

text \<open>\<open>word.charAt(0).toUpperCase() + word.slice(1).toLowerCase()\<close>\<close>

definition capitalizeWord :: "string \<Rightarrow> string" where
  "capitalizeWord word = toUpperCase (take 1 word) @ toLowerCase (drop 1 word)"

definition normalizedName :: "string \<Rightarrow> string" where
  "normalizedName name = join '' '' (map capitalizeWord (split_on CHR '' '' (trim name)))"

text \<open>
  A JavaScript \<open>Set\<close> of strings keeps its elements in the order of their first
  insertion; it is modelled as the list of its elements in that order, and \<open>add\<close>
  appends an element that is not there yet.
\<close>

definition set_add :: "'a \<Rightarrow> 'a list \<Rightarrow> 'a list" where
  "set_add x xs = (if x \<in> set xs then xs else xs @ [x])"

text \<open>
  \<open>Array.prototype.sort\<close> with a comparator is stable: of two elements that compare
  equal, the one that came first stays first. For a consistent comparator every stable
  sort returns the same array; the model inserts the elements one by one from the right.
\<close>

fun insert_sorted :: "('a \<Rightarrow> 'a \<Rightarrow> int) \<Rightarrow> 'a \<Rightarrow> 'a list \<Rightarrow> 'a list" where
  "insert_sorted cmp x [] = [x]"
| "insert_sorted cmp x (y # ys) =
     (if cmp x y \<le> 0 then x # y # ys else y # insert_sorted cmp x ys)"

definition js_sort :: "('a \<Rightarrow> 'a \<Rightarrow> int) \<Rightarrow> 'a list \<Rightarrow> 'a list" where
  "js_sort cmp xs = foldr (insert_sorted cmp) xs []"

text \<open>
  The two nested \<open>forEach\<close> loops that fill \<open>allRecipeIngredientNames\<close>; a name whose
  normalised form is the empty string is not added.
\<close>

definition allRecipeIngredientNames :: "Recipe list \<Rightarrow> string list" where
  "allRecipeIngredientNames allRecipes =
     fold (\<lambda>recipe names.
            fold (\<lambda>ing names.
                   (let normalized = normalizedName (ri_name ing)
                    in if normalized \<noteq> [] then set_add normalized names else names))
              (recipe_ingredients recipe) names)
       allRecipes []"

text \<open>
  \<open>availableSuggestions\<close> of \<open>IngredientManager\<close>. Its first statement picks the recipes
  (\<open>[...STANDARD_RECIPES, ...state.customRecipes]\<close> in the local-storage version of the
  component, \<open>state.recipes\<close> in the version backed by the server); the rest of the body
  is the same in both and is modelled here, with the recipes and \<open>state.ingredients\<close> as
  arguments. \<open>localeCompare\<close> is the host's collation; it is an argument of the model.
\<close>

definition availableSuggestions ::
    "(string \<Rightarrow> string \<Rightarrow> int) \<Rightarrow> Recipe list \<Rightarrow> Ingredient list \<Rightarrow> string list" where
  "availableSuggestions localeCompare allRecipes ingredients =
     (let currentIngredientNames = map (\<lambda>i. toLowerCase (ingredient_name i)) ingredients;
          suggestions =
            filter (\<lambda>suggestion. toLowerCase suggestion \<notin> set currentIngredientNames)
              (allRecipeIngredientNames allRecipes)
      in js_sort localeCompare suggestions)"

text \<open>
  A comparator is consistent when the order \<open>cmp a b \<le> 0\<close> is total and transitive, as
  a collation is.
\<close>

definition consistentComparator :: "('a \<Rightarrow> 'a \<Rightarrow> int) \<Rightarrow> bool" where
  "consistentComparator cmp \<longleftrightarrow>
     (\<forall>a b. cmp a b \<le> 0 \<or> cmp b a \<le> 0) \<and>
     (\<forall>a b c. cmp a b \<le> 0 \<and> cmp b c \<le> 0 \<longrightarrow> cmp a c \<le> 0)"

text \<open>
  A comparator to evaluate examples with: the comparison of two strings code unit by
  code unit, a shorter string before its extensions.
\<close>

fun ordinalCompare :: "string \<Rightarrow> string \<Rightarrow> int" where
  "ordinalCompare [] [] = 0"
| "ordinalCompare [] (y # ys) = - 1"
| "ordinalCompare (x # xs) [] = 1"
| "ordinalCompare (x # xs) (y # ys) =
     (if (of_char x :: nat) < of_char y then - 1
      else if (of_char y :: nat) < of_char x then 1
      else ordinalCompare xs ys)"

text \<open>
  Title case as a single pass over the string: a code unit that is a separator is kept,
  the first code unit of every word is upper-cased and the others are lower-cased.
  \<open>start\<close> tells whether the next code unit starts a word.
\<close>

fun titleCase :: "(char \<Rightarrow> bool) \<Rightarrow> bool \<Rightarrow> string \<Rightarrow> string" where
  "titleCase isSep start [] = []"
| "titleCase isSep start (c # cs) =
     (if isSep c then c # titleCase isSep True cs
      else (if start then toUpperChar c else toLowerChar c) # titleCase isSep False cs)"

text \<open>
  The specification's \<open>suggestIngredients\<close>, following its words: the distinct ingredient
  names of all recipes, each in title case with every white-space-separated word
  capitalised, without the names the current ingredients hold under case-insensitive
  comparison, sorted.
\<close>

definition spec_titleCase :: "string \<Rightarrow> string" where
  "spec_titleCase name = titleCase isWhiteSpace True (trim name)"

definition spec_suggestIngredients ::
    "(string \<Rightarrow> string \<Rightarrow> int) \<Rightarrow> Recipe list \<Rightarrow> Ingredient list \<Rightarrow> string list" where
  "spec_suggestIngredients localeCompare recipes currentIngredientSet =
     js_sort localeCompare
       (filter (\<lambda>n. toLowerCase n \<notin> toLowerCase ` ingredient_name ` set currentIngredientSet)
          (remdups (map (\<lambda>ing. spec_titleCase (ri_name ing))
             (concat (map recipe_ingredients recipes)))))"

text \<open>
  Two custom recipes for the examples: one whose ingredient names are written in lower
  case, one whose ingredient name holds a tab between its two words.
\<close>

definition Mojito :: Recipe where
  "Mojito =
     \<lparr>recipe_id = ''1700000000000'', recipe_name = ''Mojito'',
      recipe_ingredients =
        [\<lparr>ri_name = ''white rum'', ri_quantity = ''2'', ri_unit = ''oz''\<rparr>,
         \<lparr>ri_name = ''lime juice'', ri_quantity = ''1'', ri_unit = ''oz''\<rparr>],
      recipe_instructions = ''Muddle, shake and top with soda.'',
      recipe_isCustom = True\<rparr>"

definition Gin_Tonic :: Recipe where
  "Gin_Tonic =
     \<lparr>recipe_id = ''1700000000001'', recipe_name = ''Gin Tonic'',
      recipe_ingredients =
        [\<lparr>ri_name = ''gin'' @ [CHR 0x09] @ ''tonic'', ri_quantity = ''1'', ri_unit = ''cl''\<rparr>],
      recipe_instructions = ''Build over ice.'',
      recipe_isCustom = True\<rparr>"

section \<open>The server: storage\<close>

text \<open>
  The three tables that \<open>initializeDb\<close> creates, each a list of rows in the order of
  insertion, and the last value of the sequence behind each \<open>SERIAL\<close> column. The
  \<open>unit\<close> column is nullable in the schema; the server only ever writes a string to it.
\<close>

record ingredient_row =
  irow_id :: nat
  irow_name :: string

record recipe_row =
  rrow_id :: nat
  rrow_name :: string
  rrow_instructions :: string
  rrow_is_custom :: bool

record recipe_ingredient_row =
  rirow_id :: nat
  rirow_recipe_id :: nat
  rirow_name :: string
  rirow_quantity :: string
  rirow_unit :: string

record db =
  tbl_ingredients :: "ingredient_row list"
  tbl_recipes :: "recipe_row list"
  tbl_recipe_ingredients :: "recipe_ingredient_row list"
  seq_ingredients :: nat
  seq_recipes :: nat
  seq_recipe_ingredients :: nat

text \<open>The rows of the three tables: what a query can see.\<close>

definition tables ::
    "db \<Rightarrow> ingredient_row list \<times> recipe_row list \<times> recipe_ingredient_row list" where
  "tables d = (tbl_ingredients d, tbl_recipes d, tbl_recipe_ingredients d)"

text \<open>
  The statements of one request run on one connection, one after the other. \<open>BEGIN\<close>
  starts from the committed state, \<open>COMMIT\<close> makes the state the transaction reached
  the committed one, and \<open>ROLLBACK\<close> restores the rows of the committed state; a value
  the transaction took from a sequence is not given back.
\<close>

definition BEGIN :: "db \<Rightarrow> db" where
  "BEGIN d = d"

definition COMMIT :: "db \<Rightarrow> db" where
  "COMMIT tx = tx"

definition ROLLBACK :: "db \<Rightarrow> db \<Rightarrow> db" where
  "ROLLBACK d tx =
     tx\<lparr>tbl_ingredients := tbl_ingredients d, tbl_recipes := tbl_recipes d,
        tbl_recipe_ingredients := tbl_recipe_ingredients d\<rparr>"

text \<open>
  A statement can raise for a reason the tables do not decide: the connection is lost, a
  value is too long for its column, an identifier is beyond the integer range. The
  argument \<open>fault\<close> of a handler names the statement of the request, counted from 0 in
  the order the handler issues them, at which the storage raises; \<open>None\<close> is a request
  during which it never does. A statement that raises changes nothing.
\<close>

definition raises :: "nat option \<Rightarrow> nat \<Rightarrow> bool" where
  "raises fault k = (fault = Some k)"

text \<open>The SQL function \<open>LOWER\<close>, on the ASCII range as \<open>toLowerCase\<close>.\<close>

definition LOWER :: "string \<Rightarrow> string" where
  "LOWER s = map toLowerChar s"

text \<open>
  \<open>INSERT INTO ingredients (name) VALUES ($1) RETURNING *\<close>. The identifier is the next
  value of the sequence; the \<open>UNIQUE\<close> constraint on \<open>name\<close> makes the statement raise
  (\<open>None\<close>) when a row has that very name.
\<close>

definition insert_ingredient :: "string \<Rightarrow> db \<Rightarrow> ingredient_row option \<times> db" where
  "insert_ingredient name d =
     (let new_id = seq_ingredients d + 1;
          d1 = d\<lparr>seq_ingredients := new_id\<rparr>
      in if name \<in> irow_name ` set (tbl_ingredients d) then (None, d1)
         else (let row = \<lparr>irow_id = new_id, irow_name = name\<rparr>
               in (Some row, d1\<lparr>tbl_ingredients := tbl_ingredients d1 @ [row]\<rparr>)))"

text \<open>
  \<open>INSERT INTO recipes (name, instructions, is_custom) VALUES ($1, $2, TRUE) RETURNING *\<close>
\<close>

definition insert_recipe :: "string \<Rightarrow> string \<Rightarrow> bool \<Rightarrow> db \<Rightarrow> recipe_row \<times> db" where
  "insert_recipe name instructions is_custom tx =
     (let new_id = seq_recipes tx + 1;
          row = \<lparr>rrow_id = new_id, rrow_name = name, rrow_instructions = instructions,
                 rrow_is_custom = is_custom\<rparr>
      in (row, tx\<lparr>seq_recipes := new_id, tbl_recipes := tbl_recipes tx @ [row]\<rparr>))"

text \<open>
  \<open>INSERT INTO recipe_ingredients (recipe_id, name, quantity, unit) VALUES ($1, $2, $3, $4)\<close>
\<close>

definition insert_recipe_ingredient :: "nat \<Rightarrow> RecipeIngredient \<Rightarrow> db \<Rightarrow> db" where
  "insert_recipe_ingredient recipeId ing tx =
     (let new_id = seq_recipe_ingredients tx + 1;
          row = \<lparr>rirow_id = new_id, rirow_recipe_id = recipeId, rirow_name = ri_name ing,
                 rirow_quantity = ri_quantity ing, rirow_unit = ri_unit ing\<rparr>
      in tx\<lparr>seq_recipe_ingredients := new_id,
            tbl_recipe_ingredients := tbl_recipe_ingredients tx @ [row]\<rparr>)"

text \<open>\<open>SELECT name, quantity, unit FROM recipe_ingredients WHERE recipe_id = $1\<close>\<close>

definition row_fields :: "recipe_ingredient_row \<Rightarrow> RecipeIngredient" where
  "row_fields row =
     \<lparr>ri_name = rirow_name row, ri_quantity = rirow_quantity row, ri_unit = rirow_unit row\<rparr>"

definition select_recipe_ingredients :: "nat \<Rightarrow> db \<Rightarrow> RecipeIngredient list" where
  "select_recipe_ingredients recipeId d =
     map row_fields (filter (\<lambda>row. rirow_recipe_id row = recipeId) (tbl_recipe_ingredients d))"

text \<open>
  \<open>ORDER BY name ASC\<close> sorts by the collation of the database, an argument of the
  model as \<open>localeCompare\<close> is on the client.
\<close>

definition order_by_name :: "(string \<Rightarrow> string \<Rightarrow> int) \<Rightarrow> recipe_row list \<Rightarrow> recipe_row list" where
  "order_by_name collation rows =
     foldr (insert_sorted (\<lambda>a b. collation (rrow_name a) (rrow_name b))) rows []"

section \<open>The server: requests and responses\<close>

text \<open>
  The status of a response that is not a success: 400, 403, 404, 409 and 500. A handler
  returns the status or the JSON body of its success response, and the storage it leaves.
\<close>

datatype status = BadRequest | Forbidden | NotFound | Conflict | InternalServerError

fun status_code :: "status \<Rightarrow> nat" where
  "status_code BadRequest = 400"
| "status_code Forbidden = 403"
| "status_code NotFound = 404"
| "status_code Conflict = 409"
| "status_code InternalServerError = 500"

text \<open>
  The fields a handler reads from a JSON body are strings when they are present:
  \<open>None\<close> is a field that is missing or \<open>null\<close>, and \<open>body_ingredients\<close> is \<open>None\<close> when
  the field is not an array. Values of other JSON types are outside the model.
\<close>

record ingredient_body =
  ib_name :: "string option"
  ib_quantity :: "string option"
  ib_unit :: "string option"

record recipe_body =
  body_name :: "string option"
  body_instructions :: "string option"
  body_ingredients :: "ingredient_body list option"

record recipe_json =
  json_id :: nat
  json_name :: string
  json_instructions :: string
  json_is_custom :: bool
  json_ingredients :: "RecipeIngredient list"

text \<open>\<open>!v\<close> for a string field: the field is missing or the empty string.\<close>

definition falsy :: "string option \<Rightarrow> bool" where
  "falsy v = (v = None \<or> v = Some [])"

section \<open>The server: \<open>POST /api/ingredients\<close>\<close>

definition post_api_ingredients ::
    "nat option \<Rightarrow> string option \<Rightarrow> db \<Rightarrow> (status + ingredient_row) \<times> db" where
  "post_api_ingredients fault name d =
     (case name of
        None \<Rightarrow> (Inl BadRequest, d)
      | Some name \<Rightarrow>
          if name = [] \<or> trim name = [] then (Inl BadRequest, d)
          else if raises fault 0 then (Inl InternalServerError, d)
          else (let check = filter (\<lambda>row. LOWER (irow_name row) = LOWER (trim name))
                              (tbl_ingredients d)
                in if length check > 0 then (Inl Conflict, d)
                   else if raises fault 1 then (Inl InternalServerError, d)
                   else (case insert_ingredient (trim name) d of
                           (None, d') \<Rightarrow> (Inl InternalServerError, d')
                         | (Some row, d') \<Rightarrow> (Inr row, d'))))"

section \<open>The server: \<open>GET /api/recipes\<close>\<close>

text \<open>
  The loop that fetches the ingredients of every recipe, one \<open>SELECT\<close> each; \<open>k\<close> is
  the number of the next statement. \<open>None\<close> is the exception of a statement that raises.
\<close>

fun fetch_ingredients :: "nat option \<Rightarrow> nat \<Rightarrow> db \<Rightarrow> recipe_row list \<Rightarrow> recipe_json list option" where
  "fetch_ingredients fault k d [] = Some []"
| "fetch_ingredients fault k d (recipe # recipes) =
     (if raises fault k then None
      else (case fetch_ingredients fault (Suc k) d recipes of
              None \<Rightarrow> None
            | Some rest \<Rightarrow>
                Some (\<lparr>json_id = rrow_id recipe, json_name = rrow_name recipe,
                       json_instructions = rrow_instructions recipe,
                       json_is_custom = rrow_is_custom recipe,
                       json_ingredients = select_recipe_ingredients (rrow_id recipe) d\<rparr>
                      # rest)))"

text \<open>
  The handler never reads its request: \<open>query\<close>, the parameters of the query string, is
  not used. It selects the rows \<open>WHERE is_custom = TRUE ORDER BY name ASC\<close>.
\<close>

definition get_api_recipes ::
    "(string \<Rightarrow> string \<Rightarrow> int) \<Rightarrow> nat option \<Rightarrow> (string \<times> string) list \<Rightarrow> db
      \<Rightarrow> (status + recipe_json list) \<times> db" where
  "get_api_recipes collation fault query d =
     (if raises fault 0 then (Inl InternalServerError, d)
      else (let recipes = order_by_name collation (filter rrow_is_custom (tbl_recipes d))
            in case fetch_ingredients fault 1 d recipes of
                 None \<Rightarrow> (Inl InternalServerError, d)
               | Some recipes \<Rightarrow> (Inr recipes, d)))"

section \<open>The server: \<open>POST /api/recipes\<close>\<close>

text \<open>
  The values the handler writes for one ingredient: \<open>ing.name.trim()\<close>,
  \<open>ing.quantity.trim()\<close> and \<open>ing.unit?.trim() || ''\<close>. Calling \<open>trim\<close> on a missing
  name or quantity throws (\<open>None\<close>); the validation lets no such ingredient through.
\<close>

definition trimmed_ingredient :: "ingredient_body \<Rightarrow> RecipeIngredient option" where
  "trimmed_ingredient ing =
     (case (ib_name ing, ib_quantity ing) of
        (Some name, Some quantity) \<Rightarrow>
          Some \<lparr>ri_name = trim name, ri_quantity = trim quantity,
                ri_unit = (case ib_unit ing of None \<Rightarrow> [] | Some unit \<Rightarrow> trim unit)\<rparr>
      | _ \<Rightarrow> None)"

text \<open>
  The loop over the ingredients inside the transaction; \<open>k\<close> is the number of the next
  statement. \<open>Inl tx\<close> is an exception, thrown in the state \<open>tx\<close>.
\<close>

fun insert_recipe_ingredients ::
    "nat option \<Rightarrow> nat \<Rightarrow> nat \<Rightarrow> ingredient_body list \<Rightarrow> db \<Rightarrow> db + db" where
  "insert_recipe_ingredients fault k recipeId [] tx = Inr tx"
| "insert_recipe_ingredients fault k recipeId (ing # ings) tx =
     (case trimmed_ingredient ing of
        None \<Rightarrow> Inl tx
      | Some values \<Rightarrow>
          if raises fault k then Inl tx
          else insert_recipe_ingredients fault (Suc k) recipeId ings
                 (insert_recipe_ingredient recipeId values tx))"

text \<open>
  The \<open>try\<close> block up to and including \<open>COMMIT\<close>: statement 0 is \<open>BEGIN\<close>, statement 1
  inserts the recipe, the next ones insert the ingredients and the last one is
  \<open>COMMIT\<close>.
\<close>

definition post_api_recipes_try ::
    "nat option \<Rightarrow> string \<Rightarrow> string \<Rightarrow> ingredient_body list \<Rightarrow> db \<Rightarrow> db + recipe_row \<times> db" where
  "post_api_recipes_try fault name instructions ingredients d =
     (if raises fault 0 then Inl d
      else (let tx = BEGIN d
            in if raises fault 1 then Inl tx
               else (case insert_recipe (trim name) (trim instructions) True tx of
                       (newRecipe, tx) \<Rightarrow>
                         (case insert_recipe_ingredients fault 2 (rrow_id newRecipe)
                                 ingredients tx of
                            Inl tx \<Rightarrow> Inl tx
                          | Inr tx \<Rightarrow>
                              if raises fault (2 + length ingredients) then Inl tx
                              else Inr (newRecipe, COMMIT tx)))))"

text \<open>
  The handler: the two validation steps, the transaction, and the \<open>catch\<close> block that
  rolls back and answers 500. The response carries the row of the recipe and the
  trimmed ingredients.
\<close>

definition post_api_recipes ::
    "nat option \<Rightarrow> recipe_body \<Rightarrow> db \<Rightarrow> (status + recipe_json) \<times> db" where
  "post_api_recipes fault body d =
     (case (body_name body, body_instructions body, body_ingredients body) of
        (Some name, Some instructions, Some ingredients) \<Rightarrow>
          if name = [] \<or> instructions = [] then (Inl BadRequest, d)
          else if list_ex (\<lambda>ing. falsy (ib_name ing) \<or> falsy (ib_quantity ing)) ingredients
          then (Inl BadRequest, d)
          else (case post_api_recipes_try fault name instructions ingredients d of
                  Inl tx \<Rightarrow> (Inl InternalServerError, ROLLBACK d tx)
                | Inr (newRecipe, d') \<Rightarrow>
                    (Inr \<lparr>json_id = rrow_id newRecipe, json_name = rrow_name newRecipe,
                          json_instructions = rrow_instructions newRecipe,
                          json_is_custom = rrow_is_custom newRecipe,
                          json_ingredients = List.map_filter trimmed_ingredient ingredients\<rparr>,
                     d'))
      | _ \<Rightarrow> (Inl BadRequest, d))"

section \<open>The server: \<open>DELETE /api/recipes/:id\<close>\<close>

text \<open>
  \<open>/^\d+$/.test(id)\<close>: the \<open>id\<close> of the route, \<open>ident\<close> below, is a non-empty string of
  decimal digits. The storage reads such a string as the number it writes.
\<close>

definition isDigit :: "char \<Rightarrow> bool" where
  "isDigit c = (48 \<le> (of_char c :: nat) \<and> (of_char c :: nat) \<le> 57)"

definition valid_id :: "string \<Rightarrow> bool" where
  "valid_id ident = (ident \<noteq> [] \<and> list_all isDigit ident)"

definition to_integer :: "string \<Rightarrow> nat" where
  "to_integer s = foldl (\<lambda>n c. 10 * n + (of_char c - 48)) 0 s"

text \<open>
  The \<open>try\<close> block: statement 0 is \<open>BEGIN\<close>, statement 1 the \<open>SELECT\<close> of \<open>is_custom\<close>,
  statements 2 and 3 the two \<open>DELETE\<close>s, statement 4 \<open>COMMIT\<close>; the \<open>ROLLBACK\<close> before
  an early return is the statement that follows the last one issued. Deleting from
  \<open>recipes\<close> cascades to \<open>recipe_ingredients\<close>. \<open>Inl tx\<close> is an exception thrown in the
  state \<open>tx\<close>; \<open>Inr\<close> carries the response and the storage left.
\<close>

definition delete_api_recipes_try ::
    "nat option \<Rightarrow> nat \<Rightarrow> db \<Rightarrow> db + (status + recipe_row) \<times> db" where
  "delete_api_recipes_try fault n d =
     (if raises fault 0 then Inl d
      else (let tx = BEGIN d
            in if raises fault 1 then Inl tx
               else (case filter (\<lambda>row. rrow_id row = n) (tbl_recipes tx) of
                  [] \<Rightarrow> if raises fault 2 then Inl tx else Inr (Inl NotFound, ROLLBACK d tx)
                | checked # _ \<Rightarrow>
                    if \<not> rrow_is_custom checked
                    then (if raises fault 2 then Inl tx else Inr (Inl Forbidden, ROLLBACK d tx))
                    else if raises fault 2 then Inl tx
                    else (let tx = tx\<lparr>tbl_recipe_ingredients :=
                                 filter (\<lambda>row. rirow_recipe_id row \<noteq> n)
                                   (tbl_recipe_ingredients tx)\<rparr>
                          in if raises fault 3 then Inl tx
                             else (let deleted = filter (\<lambda>row. rrow_id row = n) (tbl_recipes tx);
                                       tx = tx\<lparr>tbl_recipes :=
                                              filter (\<lambda>row. rrow_id row \<noteq> n) (tbl_recipes tx),
                                            tbl_recipe_ingredients :=
                                              filter (\<lambda>row. rirow_recipe_id row \<noteq> n)
                                                (tbl_recipe_ingredients tx)\<rparr>
                                   in case deleted of
                                        [] \<Rightarrow> if raises fault 4 then Inl tx
                                              else Inr (Inl NotFound, ROLLBACK d tx)
                                      | deletedRecipe # _ \<Rightarrow>
                                          if raises fault 4 then Inl tx
                                          else Inr (Inr deletedRecipe, COMMIT tx))))))"

definition delete_api_recipes ::
    "nat option \<Rightarrow> string \<Rightarrow> db \<Rightarrow> (status + recipe_row) \<times> db" where
  "delete_api_recipes fault ident d =
     (if \<not> valid_id ident then (Inl BadRequest, d)
      else (case delete_api_recipes_try fault (to_integer ident) d of
              Inl tx \<Rightarrow> (Inl InternalServerError, ROLLBACK d tx)
            | Inr (response, d') \<Rightarrow> (response, d')))"

section \<open>Example storage\<close>

definition empty_db :: db where
  "empty_db =
     \<lparr>tbl_ingredients = [], tbl_recipes = [], tbl_recipe_ingredients = [],
      seq_ingredients = 0, seq_recipes = 0, seq_recipe_ingredients = 0\<rparr>"

text \<open>
  A storage with the standard Margarita (row 1), a custom recipe (row 2) and their
  ingredient rows.
\<close>

definition bar_db :: db where
  "bar_db =
     \<lparr>tbl_ingredients = [\<lparr>irow_id = 1, irow_name = ''Tequila''\<rparr>],
      tbl_recipes =
        [\<lparr>rrow_id = 1, rrow_name = ''Margarita'',
          rrow_instructions = ''Shake with ice and strain into a salt-rimmed glass.'',
          rrow_is_custom = False\<rparr>,
         \<lparr>rrow_id = 2, rrow_name = ''Mojito'',
          rrow_instructions = ''Muddle, shake and top with soda.'', rrow_is_custom = True\<rparr>],
      tbl_recipe_ingredients =
        [\<lparr>rirow_id = 1, rirow_recipe_id = 1, rirow_name = ''Tequila'', rirow_quantity = ''2'',
          rirow_unit = ''oz''\<rparr>,
         \<lparr>rirow_id = 2, rirow_recipe_id = 2, rirow_name = ''White Rum'', rirow_quantity = ''2'',
          rirow_unit = ''oz''\<rparr>,
         \<lparr>rirow_id = 3, rirow_recipe_id = 1, rirow_name = ''Lime Juice'', rirow_quantity = ''1'',
          rirow_unit = ''oz''\<rparr>,
         \<lparr>rirow_id = 4, rirow_recipe_id = 2, rirow_name = ''Lime Juice'', rirow_quantity = ''1'',
          rirow_unit = ''oz''\<rparr>],
      seq_ingredients = 1, seq_recipes = 2, seq_recipe_ingredients = 4\<rparr>"

text \<open>
  Request bodies for the examples: a recipe with two ingredients, the same with the
  quantity of its second ingredient missing, and a recipe with an empty ingredient list.
\<close>

definition daiquiri_body :: recipe_body where
  "daiquiri_body =
     \<lparr>body_name = Some '' Daiquiri '', body_instructions = Some ''Shake and strain. '',
      body_ingredients =
        Some [\<lparr>ib_name = Some ''White Rum '', ib_quantity = Some '' 2'', ib_unit = Some '' oz ''\<rparr>,
              \<lparr>ib_name = Some ''Lime Juice'', ib_quantity = Some ''1'', ib_unit = None\<rparr>]\<rparr>"

definition daiquiri_body_no_quantity :: recipe_body where
  "daiquiri_body_no_quantity =
     \<lparr>body_name = Some '' Daiquiri '', body_instructions = Some ''Shake and strain. '',
      body_ingredients =
        Some [\<lparr>ib_name = Some ''White Rum '', ib_quantity = Some '' 2'', ib_unit = Some '' oz ''\<rparr>,
              \<lparr>ib_name = Some ''Lime Juice'', ib_quantity = None, ib_unit = None\<rparr>]\<rparr>"

definition neat_body :: recipe_body where
  "neat_body =
     \<lparr>body_name = Some ''Neat'', body_instructions = Some ''Pour.'',
      body_ingredients = Some []\<rparr>"

text \<open>
  A storage whose custom recipes are not stored in the order of their names: the
  standard Margarita (row 1) and the custom Mojito (row 2) and Daiquiri (row 3).
\<close>

definition cellar_db :: db where
  "cellar_db =
     \<lparr>tbl_ingredients = [],
      tbl_recipes =
        [\<lparr>rrow_id = 1, rrow_name = ''Margarita'',
          rrow_instructions = ''Shake with ice and strain into a salt-rimmed glass.'',
          rrow_is_custom = False\<rparr>,
         \<lparr>rrow_id = 2, rrow_name = ''Mojito'',
          rrow_instructions = ''Muddle, shake and top with soda.'', rrow_is_custom = True\<rparr>,
         \<lparr>rrow_id = 3, rrow_name = ''Daiquiri'',
          rrow_instructions = ''Shake and strain.'', rrow_is_custom = True\<rparr>],
      tbl_recipe_ingredients =
        [\<lparr>rirow_id = 1, rirow_recipe_id = 1, rirow_name = ''Tequila'', rirow_quantity = ''2'',
          rirow_unit = ''oz''\<rparr>,
         \<lparr>rirow_id = 2, rirow_recipe_id = 2, rirow_name = ''White Rum'', rirow_quantity = ''2'',
          rirow_unit = ''oz''\<rparr>,
         \<lparr>rirow_id = 3, rirow_recipe_id = 3, rirow_name = ''White Rum'', rirow_quantity = ''2'',
          rirow_unit = ''oz''\<rparr>,
         \<lparr>rirow_id = 4, rirow_recipe_id = 2, rirow_name = ''Mint'', rirow_quantity = ''6'',
          rirow_unit = ''leaves''\<rparr>,
         \<lparr>rirow_id = 5, rirow_recipe_id = 3, rirow_name = ''Lime Juice'', rirow_quantity = ''1'',
          rirow_unit = ''oz''\<rparr>],
      seq_ingredients = 0, seq_recipes = 3, seq_recipe_ingredients = 5\<rparr>"

section \<open>Properties of the availability engine\<close>

lemma canMakeRecipe_set:
  "canMakeRecipe ings r \<longleftrightarrow>
     (\<forall>ri \<in> set (recipe_ingredients r).
        toLowerCase (ri_name ri) \<in> toLowerCase ` ingredient_name ` set ings)"
  by (auto simp: canMakeRecipe_def list_all_iff image_iff)

lemma canMakeRecipe_names:
  "canMakeRecipe ings r \<longleftrightarrow>
     set (map toLowerCase (map ri_name (recipe_ingredients r)))
       \<subseteq> set (map toLowerCase (map ingredient_name ings))"
  by (auto simp: canMakeRecipe_set image_iff)

lemma Margarita_names:
  "map toLowerCase (map ri_name (recipe_ingredients Margarita)) =
     [''tequila'', ''lime juice'', ''triple sec'']"
  by code_simp

lemma lower_full_bar:
  "map toLowerCase [''Tequila'', ''Lime Juice'', ''Triple Sec''] =
     [''tequila'', ''lime juice'', ''triple sec'']"
  by code_simp

lemma lower_short_bar:
  "map toLowerCase [''Tequila'', ''Lime Juice''] = [''tequila'', ''lime juice'']"
  by code_simp

lemma Margarita_makeable:
  assumes "map ingredient_name ings = [''Tequila'', ''Lime Juice'', ''Triple Sec'']"
  shows "canMakeRecipe ings Margarita"
  unfolding canMakeRecipe_names Margarita_names assms lower_full_bar by simp

lemma Margarita_not_makeable:
  assumes "map ingredient_name ings = [''Tequila'', ''Lime Juice'']"
  shows "\<not> canMakeRecipe ings Margarita"
  unfolding canMakeRecipe_names Margarita_names assms lower_short_bar by simp

text \<open>
  Claim C5. \<open>canMakeRecipe\<close> holds exactly when the lower-cased name of every
  RecipeIngredient of the recipe is among the lower-cased names of the ingredients;
  two recipes whose ingredient lists carry the same names, whatever their quantities and
  units, get the same answer. With ingredients named Tequila, Lime Juice and Triple Sec
  the Margarita of \<open>STANDARD_RECIPES\<close> is makeable, and with Tequila and Lime Juice alone
  it is not.
\<close>

theorem canMakeRecipe_iff_names_present:
  "(canMakeRecipe ings r \<longleftrightarrow>
      (\<forall>ri \<in> set (recipe_ingredients r).
         toLowerCase (ri_name ri) \<in> toLowerCase ` ingredient_name ` set ings))
   \<and> (map ri_name (recipe_ingredients r') = map ri_name (recipe_ingredients r)
        \<longrightarrow> canMakeRecipe ings r' = canMakeRecipe ings r)
   \<and> hd STANDARD_RECIPES = Margarita
   \<and> (map ingredient_name full = [''Tequila'', ''Lime Juice'', ''Triple Sec'']
        \<longrightarrow> canMakeRecipe full Margarita)
   \<and> (map ingredient_name short = [''Tequila'', ''Lime Juice'']
        \<longrightarrow> \<not> canMakeRecipe short Margarita)"
proof -
  have "canMakeRecipe ings r' = canMakeRecipe ings r"
    if "map ri_name (recipe_ingredients r') = map ri_name (recipe_ingredients r)"
    using that by (simp add: canMakeRecipe_names)
  then show ?thesis
    using canMakeRecipe_set [of ings r] Margarita_makeable [of full]
      Margarita_not_makeable [of short]
    by (simp add: STANDARD_RECIPES_def)
qed

theorem canMakeRecipe_iff_names_present_witness:
  "canMakeRecipe
     [\<lparr>ingredient_id = ''10'', ingredient_name = ''tequila''\<rparr>,
      \<lparr>ingredient_id = ''11'', ingredient_name = ''LIME JUICE''\<rparr>,
      \<lparr>ingredient_id = ''12'', ingredient_name = ''Triple Sec''\<rparr>]
     (Margarita\<lparr>recipe_ingredients :=
        [\<lparr>ri_name = ''Tequila'', ri_quantity = ''7'', ri_unit = ''cl''\<rparr>,
         \<lparr>ri_name = ''Lime Juice'', ri_quantity = ''1'', ri_unit = ''''\<rparr>,
         \<lparr>ri_name = ''Triple Sec'', ri_quantity = ''3'', ri_unit = ''ml''\<rparr>]\<rparr>)
   \<and> canMakeRecipe
       [\<lparr>ingredient_id = ''1'', ingredient_name = ''Tequila''\<rparr>,
        \<lparr>ingredient_id = ''2'', ingredient_name = ''Lime Juice''\<rparr>,
        \<lparr>ingredient_id = ''3'', ingredient_name = ''Triple Sec''\<rparr>] Margarita
   \<and> \<not> canMakeRecipe
       [\<lparr>ingredient_id = ''1'', ingredient_name = ''Tequila''\<rparr>,
        \<lparr>ingredient_id = ''2'', ingredient_name = ''Lime Juice''\<rparr>] Margarita"
proof -
  let ?bar = "[\<lparr>ingredient_id = ''10'', ingredient_name = ''tequila''\<rparr>,
      \<lparr>ingredient_id = ''11'', ingredient_name = ''LIME JUICE''\<rparr>,
      \<lparr>ingredient_id = ''12'', ingredient_name = ''Triple Sec''\<rparr>]"
  let ?full = "[\<lparr>ingredient_id = ''1'', ingredient_name = ''Tequila''\<rparr>,
        \<lparr>ingredient_id = ''2'', ingredient_name = ''Lime Juice''\<rparr>,
        \<lparr>ingredient_id = ''3'', ingredient_name = ''Triple Sec''\<rparr>]"
  let ?short = "[\<lparr>ingredient_id = ''1'', ingredient_name = ''Tequila''\<rparr>,
        \<lparr>ingredient_id = ''2'', ingredient_name = ''Lime Juice''\<rparr>]"
  let ?r' = "Margarita\<lparr>recipe_ingredients :=
        [\<lparr>ri_name = ''Tequila'', ri_quantity = ''7'', ri_unit = ''cl''\<rparr>,
         \<lparr>ri_name = ''Lime Juice'', ri_quantity = ''1'', ri_unit = ''''\<rparr>,
         \<lparr>ri_name = ''Triple Sec'', ri_quantity = ''3'', ri_unit = ''ml''\<rparr>]\<rparr>"
  have same: "map ri_name (recipe_ingredients ?r') = map ri_name (recipe_ingredients Margarita)"
    by (simp add: Margarita_def)
  have bar: "canMakeRecipe ?bar Margarita"
    by code_simp
  show ?thesis
    using canMakeRecipe_iff_names_present [of ?bar Margarita ?r' ?full ?short] same bar
    by simp
qed

text \<open>
  Claim C6. \<open>canMakeRecipe\<close> is monotonic in the ingredients: a recipe makeable from
  \<open>S1\<close> is makeable from every \<open>S2\<close> that contains the ingredients of \<open>S1\<close>.
\<close>

theorem canMakeRecipe_mono:
  "set S1 \<subseteq> set S2 \<Longrightarrow> canMakeRecipe S1 r \<Longrightarrow> canMakeRecipe S2 r"
  unfolding canMakeRecipe_set by blast

theorem canMakeRecipe_mono_witness:
  "set [\<lparr>ingredient_id = ''1'', ingredient_name = ''Tequila''\<rparr>,
        \<lparr>ingredient_id = ''2'', ingredient_name = ''Lime Juice''\<rparr>,
        \<lparr>ingredient_id = ''3'', ingredient_name = ''Triple Sec''\<rparr>]
     \<subseteq> set [\<lparr>ingredient_id = ''4'', ingredient_name = ''Bourbon''\<rparr>,
        \<lparr>ingredient_id = ''3'', ingredient_name = ''Triple Sec''\<rparr>,
        \<lparr>ingredient_id = ''2'', ingredient_name = ''Lime Juice''\<rparr>,
        \<lparr>ingredient_id = ''1'', ingredient_name = ''Tequila''\<rparr>]
   \<and> canMakeRecipe
       [\<lparr>ingredient_id = ''1'', ingredient_name = ''Tequila''\<rparr>,
        \<lparr>ingredient_id = ''2'', ingredient_name = ''Lime Juice''\<rparr>,
        \<lparr>ingredient_id = ''3'', ingredient_name = ''Triple Sec''\<rparr>] Margarita
   \<and> canMakeRecipe
       [\<lparr>ingredient_id = ''4'', ingredient_name = ''Bourbon''\<rparr>,
        \<lparr>ingredient_id = ''3'', ingredient_name = ''Triple Sec''\<rparr>,
        \<lparr>ingredient_id = ''2'', ingredient_name = ''Lime Juice''\<rparr>,
        \<lparr>ingredient_id = ''1'', ingredient_name = ''Tequila''\<rparr>] Margarita"
proof -
  let ?S1 = "[\<lparr>ingredient_id = ''1'', ingredient_name = ''Tequila''\<rparr>,
        \<lparr>ingredient_id = ''2'', ingredient_name = ''Lime Juice''\<rparr>,
        \<lparr>ingredient_id = ''3'', ingredient_name = ''Triple Sec''\<rparr>]"
  let ?S2 = "[\<lparr>ingredient_id = ''4'', ingredient_name = ''Bourbon''\<rparr>,
        \<lparr>ingredient_id = ''3'', ingredient_name = ''Triple Sec''\<rparr>,
        \<lparr>ingredient_id = ''2'', ingredient_name = ''Lime Juice''\<rparr>,
        \<lparr>ingredient_id = ''1'', ingredient_name = ''Tequila''\<rparr>]"
  have sub: "set ?S1 \<subseteq> set ?S2"
    by simp
  have one: "canMakeRecipe ?S1 Margarita"
    by (rule Margarita_makeable) simp
  show ?thesis
    using sub one canMakeRecipe_mono [OF sub one] by simp
qed

lemma useRecipeFilter_filter:
  "useRecipeFilter recipes ings search showMakeable =
     filter (\<lambda>r. (search = [] \<or> js_includes (toLowerCase (recipe_name r)) (toLowerCase search))
                 \<and> (\<not> showMakeable \<or> canMakeRecipe ings r)) recipes"
  by (simp add: useRecipeFilter_def)

text \<open>
  Claim C8. \<open>useRecipeFilter\<close> is the search filter (a case-insensitive substring match
  on the recipe name, applied when the search term is non-empty) followed by the
  makeable filter (applied when \<open>showMakeable\<close> is set), and running the two filters in
  the opposite order gives the same list.
\<close>

theorem useRecipeFilter_order_irrelevant:
  "useRecipeFilter recipes ings search showMakeable =
     (if showMakeable then filter (canMakeRecipe ings) else id)
       ((if search \<noteq> []
         then filter (\<lambda>r. js_includes (toLowerCase (recipe_name r)) (toLowerCase search))
         else id) recipes)
   \<and> useRecipeFilter recipes ings search showMakeable =
     (if search \<noteq> []
      then filter (\<lambda>r. js_includes (toLowerCase (recipe_name r)) (toLowerCase search))
      else id)
       ((if showMakeable then filter (canMakeRecipe ings) else id) recipes)"
  unfolding useRecipeFilter_filter by (auto intro: filter_cong)

theorem useRecipeFilter_order_irrelevant_witness:
  "useRecipeFilter STANDARD_RECIPES
     [\<lparr>ingredient_id = ''1'', ingredient_name = ''Tequila''\<rparr>,
      \<lparr>ingredient_id = ''2'', ingredient_name = ''Lime Juice''\<rparr>,
      \<lparr>ingredient_id = ''3'', ingredient_name = ''Triple Sec''\<rparr>] ''RITA'' True
     = [Margarita]
   \<and> filter (\<lambda>r. js_includes (toLowerCase (recipe_name r)) (toLowerCase ''RITA''))
       (filter (canMakeRecipe
          [\<lparr>ingredient_id = ''1'', ingredient_name = ''Tequila''\<rparr>,
           \<lparr>ingredient_id = ''2'', ingredient_name = ''Lime Juice''\<rparr>,
           \<lparr>ingredient_id = ''3'', ingredient_name = ''Triple Sec''\<rparr>]) STANDARD_RECIPES)
     = [Margarita]"
proof -
  let ?S = "[\<lparr>ingredient_id = ''1'', ingredient_name = ''Tequila''\<rparr>,
      \<lparr>ingredient_id = ''2'', ingredient_name = ''Lime Juice''\<rparr>,
      \<lparr>ingredient_id = ''3'', ingredient_name = ''Triple Sec''\<rparr>]"
  have run: "useRecipeFilter STANDARD_RECIPES ?S ''RITA'' True = [Margarita]"
    by code_simp
  have "useRecipeFilter STANDARD_RECIPES ?S ''RITA'' True =
      filter (\<lambda>r. js_includes (toLowerCase (recipe_name r)) (toLowerCase ''RITA''))
        (filter (canMakeRecipe ?S) STANDARD_RECIPES)"
    using useRecipeFilter_order_irrelevant [of STANDARD_RECIPES ?S "''RITA''" True, THEN conjunct2]
    by (simp del: filter_filter)
  with run show ?thesis
    by (simp del: filter_filter)
qed

text \<open>
  Claim C10. The list \<open>useRecipeFilter\<close> returns is a subsequence of the recipes it is
  given: its elements are recipes of the input, unchanged, in the input's order, none
  more often than in the input. With an empty search term and \<open>showMakeable\<close> off it
  returns the input itself.
\<close>

theorem useRecipeFilter_subseq:
  "subseq (useRecipeFilter recipes ings search showMakeable) recipes
   \<and> set (useRecipeFilter recipes ings search showMakeable) \<subseteq> set recipes
   \<and> count_list (useRecipeFilter recipes ings search showMakeable) r \<le> count_list recipes r
   \<and> (search = [] \<and> \<not> showMakeable
        \<longrightarrow> useRecipeFilter recipes ings search showMakeable = recipes)"
proof -
  let ?P = "\<lambda>r. (search = [] \<or> js_includes (toLowerCase (recipe_name r)) (toLowerCase search))
                 \<and> (\<not> showMakeable \<or> canMakeRecipe ings r)"
  have "count_list (filter ?P recipes) r \<le> count_list recipes r"
    by (induction recipes) auto
  then show ?thesis
    unfolding useRecipeFilter_filter by auto
qed

theorem useRecipeFilter_subseq_witness:
  "useRecipeFilter STANDARD_RECIPES [] [] False = STANDARD_RECIPES
   \<and> subseq (useRecipeFilter STANDARD_RECIPES [] ''old'' False) STANDARD_RECIPES
   \<and> useRecipeFilter STANDARD_RECIPES [] ''old'' False = [Old_Fashioned]"
proof -
  have run: "useRecipeFilter STANDARD_RECIPES [] ''old'' False = [Old_Fashioned]"
    by code_simp
  show ?thesis
    using useRecipeFilter_subseq [of STANDARD_RECIPES "[]" "[]" False]
      useRecipeFilter_subseq [of STANDARD_RECIPES "[]" "''old''" False] run
    by simp
qed

lemma split_on_nonempty: "split_on sep s \<noteq> []"
  by (induction s) (auto split: list.splits)

lemma toLower_toUpper [simp]: "toLowerChar (toUpperChar c) = toLowerChar c"
  unfolding toLowerChar_def toUpperChar_def Let_def by auto

lemma join_Cons_Cons: "ws \<noteq> [] \<Longrightarrow> join sep (w # ws) = w @ sep @ join sep ws"
  by (cases ws) auto

lemma join_titleCase:
  "join [sep] (case split_on sep s of [] \<Rightarrow> [] | w # ws \<Rightarrow>
       (if b then capitalizeWord w else toLowerCase w) # map capitalizeWord ws)
   = titleCase (\<lambda>c. c = sep) b s"
proof (induction s arbitrary: b)
  case Nil
  then show ?case by (simp add: capitalizeWord_def toLowerCase_def toUpperCase_def)
next
  case (Cons c cs)
  obtain w ws where sp: "split_on sep cs = w # ws"
    using split_on_nonempty [of sep cs] by (cases "split_on sep cs") auto
  show ?case
  proof (cases "c = sep")
    case True
    have "join [sep] (capitalizeWord w # map capitalizeWord ws) = titleCase (\<lambda>c. c = sep) True cs"
      using Cons.IH [of True] by (simp add: sp)
    then show ?thesis
      using True by (simp add: sp capitalizeWord_def toLowerCase_def toUpperCase_def)
  next
    case False
    have "join [sep] (toLowerCase w # map capitalizeWord ws) = titleCase (\<lambda>c. c = sep) False cs"
      using Cons.IH [of False] by (simp add: sp)
    then show ?thesis
      using False
      by (cases ws) (auto simp add: sp capitalizeWord_def toLowerCase_def toUpperCase_def)
  qed
qed

lemma normalizedName_titleCase:
  "normalizedName name = titleCase (\<lambda>c. c = CHR '' '') True (trim name)"
proof -
  obtain w ws where sp: "split_on CHR '' '' (trim name) = w # ws"
    using split_on_nonempty [of "CHR '' ''" "trim name"]
    by (cases "split_on CHR '' '' (trim name)") auto
  show ?thesis
    using join_titleCase [where sep = "CHR '' ''" and s = "trim name" and b = True]
    by (simp add: normalizedName_def sp)
qed

lemma set_insert_sorted [simp]: "set (insert_sorted cmp x ys) = insert x (set ys)"
  by (induction ys) auto

lemma set_js_sort [simp]: "set (js_sort cmp xs) = set xs"
  by (induction xs) (auto simp: js_sort_def)

lemma distinct_insert_sorted: "distinct (insert_sorted cmp x ys) \<longleftrightarrow> x \<notin> set ys \<and> distinct ys"
  by (induction ys) auto

lemma distinct_js_sort [simp]: "distinct (js_sort cmp xs) = distinct xs"
proof (induction xs)
  case Nil
  show ?case by (simp add: js_sort_def)
next
  case (Cons x xs)
  have "js_sort cmp (x # xs) = insert_sorted cmp x (js_sort cmp xs)"
    by (simp add: js_sort_def)
  then show ?case
    using Cons by (simp add: distinct_insert_sorted)
qed

lemma sorted_insert_sorted:
  assumes "consistentComparator cmp" "sorted_wrt (\<lambda>a b. cmp a b \<le> 0) ys"
  shows "sorted_wrt (\<lambda>a b. cmp a b \<le> 0) (insert_sorted cmp x ys)"
  using assms(2)
proof (induction ys)
  case Nil
  show ?case by simp
next
  case (Cons y ys)
  have total: "cmp a b \<le> 0 \<or> cmp b a \<le> 0" for a b
    using assms(1) unfolding consistentComparator_def by blast
  have trans: "cmp a b \<le> 0 \<Longrightarrow> cmp b c \<le> 0 \<Longrightarrow> cmp a c \<le> 0" for a b c
    using assms(1) unfolding consistentComparator_def by blast
  have tail: "sorted_wrt (\<lambda>a b. cmp a b \<le> 0) ys" and above: "\<forall>z \<in> set ys. cmp y z \<le> 0"
    using Cons.prems by simp_all
  show ?case
  proof (cases "cmp x y \<le> 0")
    case True
    have "\<forall>z \<in> set ys. cmp x z \<le> 0"
      using above trans [OF True] by blast
    then show ?thesis
      using True tail above by simp
  next
    case False
    then have "cmp y x \<le> 0"
      using total [of x y] by simp
    then have "\<forall>z \<in> set (insert_sorted cmp x ys). cmp y z \<le> 0"
      using above by simp
    then show ?thesis
      using False Cons.IH [OF tail] by simp
  qed
qed

lemma sorted_js_sort:
  "consistentComparator cmp \<Longrightarrow> sorted_wrt (\<lambda>a b. cmp a b \<le> 0) (js_sort cmp xs)"
proof (induction xs)
  case Nil
  show ?case by (simp add: js_sort_def)
next
  case (Cons x xs)
  have "js_sort cmp (x # xs) = insert_sorted cmp x (js_sort cmp xs)"
    by (simp add: js_sort_def)
  then show ?case
    using Cons sorted_insert_sorted by metis
qed

lemma set_set_add [simp]: "set (set_add x xs) = insert x (set xs)"
  by (auto simp: set_add_def)

lemma distinct_set_add [simp]: "distinct (set_add x xs) = distinct xs"
  by (auto simp: set_add_def)

lemma inner_fold:
  "set (fold (\<lambda>ing names.
               (let normalized = normalizedName (ri_name ing)
                in if normalized \<noteq> [] then set_add normalized names else names)) ings names) =
     set names \<union> {n. n \<noteq> [] \<and> (\<exists>ing \<in> set ings. n = normalizedName (ri_name ing))}
   \<and> (distinct names \<longrightarrow>
        distinct (fold (\<lambda>ing names.
               (let normalized = normalizedName (ri_name ing)
                in if normalized \<noteq> [] then set_add normalized names else names)) ings names))"
  by (induction ings arbitrary: names) (auto simp: Let_def)

lemma outer_fold:
  "set (fold (\<lambda>recipe names.
          fold (\<lambda>ing names.
               (let normalized = normalizedName (ri_name ing)
                in if normalized \<noteq> [] then set_add normalized names else names))
            (recipe_ingredients recipe) names) rs names) =
     set names \<union> {n. n \<noteq> [] \<and>
        (\<exists>r \<in> set rs. \<exists>ing \<in> set (recipe_ingredients r). n = normalizedName (ri_name ing))}
   \<and> (distinct names \<longrightarrow>
        distinct (fold (\<lambda>recipe names.
          fold (\<lambda>ing names.
               (let normalized = normalizedName (ri_name ing)
                in if normalized \<noteq> [] then set_add normalized names else names))
            (recipe_ingredients recipe) names) rs names))"
proof (induction rs arbitrary: names)
  case Nil
  show ?case by simp
next
  case (Cons r rs)
  show ?case
    using Cons [of "fold (\<lambda>ing names.
               (let normalized = normalizedName (ri_name ing)
                in if normalized \<noteq> [] then set_add normalized names else names))
            (recipe_ingredients r) names"]
      inner_fold [of "recipe_ingredients r" names]
    by auto
qed

lemma allRecipeIngredientNames_set:
  "set (allRecipeIngredientNames rs) =
     {n. n \<noteq> [] \<and>
        (\<exists>r \<in> set rs. \<exists>ing \<in> set (recipe_ingredients r). n = normalizedName (ri_name ing))}"
  using outer_fold [of rs "[]"] by (simp add: allRecipeIngredientNames_def)

lemma allRecipeIngredientNames_distinct: "distinct (allRecipeIngredientNames rs)"
  using outer_fold [of rs "[]"] by (simp add: allRecipeIngredientNames_def)

lemma ordinalCompare_total: "ordinalCompare a b \<le> 0 \<or> ordinalCompare b a \<le> 0"
  by (induction a b rule: ordinalCompare.induct) auto

lemma ordinalCompare_trans:
  "ordinalCompare a b \<le> 0 \<Longrightarrow> ordinalCompare b c \<le> 0 \<Longrightarrow> ordinalCompare a c \<le> 0"
proof (induction a b arbitrary: c rule: ordinalCompare.induct)
  case 1
  then show ?case by simp
next
  case (2 y ys)
  show ?case by (cases c) simp_all
next
  case (3 x xs)
  from "3.prems"(1) show ?case by simp
next
  case (4 x xs y ys)
  show ?case
  proof (cases c)
    case Nil
    with "4.prems"(2) show ?thesis by simp
  next
    case (Cons z zs)
    let ?x = "of_char x :: nat" and ?y = "of_char y :: nat" and ?z = "of_char z :: nat"
    from "4.prems"(1) have xy: "?x \<le> ?y"
      by (simp split: if_splits)
    from "4.prems"(2) have yz: "?y \<le> ?z"
      unfolding Cons by (simp split: if_splits)
    show ?thesis
    proof (cases "?x < ?z")
      case True
      then show ?thesis unfolding Cons by simp
    next
      case False
      with xy yz have eq: "?x = ?y" "?y = ?z"
        by linarith+
      have le1: "ordinalCompare xs ys \<le> 0"
        using "4.prems"(1) eq by simp
      have le2: "ordinalCompare ys zs \<le> 0"
        using "4.prems"(2) eq unfolding Cons by simp
      have "ordinalCompare xs zs \<le> 0"
        by (rule "4.IH" [OF _ _ le1 le2]) (simp_all add: eq)
      then show ?thesis
        unfolding Cons using eq by simp
    qed
  qed
qed

lemma ordinalCompare_consistent: "consistentComparator ordinalCompare"
  unfolding consistentComparator_def
proof (intro conjI allI impI)
  show "ordinalCompare a b \<le> 0 \<or> ordinalCompare b a \<le> 0" for a b
    by (rule ordinalCompare_total)
  show "ordinalCompare a c \<le> 0" if "ordinalCompare a b \<le> 0 \<and> ordinalCompare b c \<le> 0" for a b c
    using that ordinalCompare_trans [of a b c] by (elim conjE)
qed

text \<open>
  Claim C7, as amended. \<open>availableSuggestions\<close> returns, without repetition, exactly the
  non-empty normalised ingredient names of all recipes whose lower-cased form is not the
  lower-cased name of a current ingredient, where normalising a name trims it, upper-cases
  the first code unit of every word and lower-cases the others, a word being a run
  between single spaces (a tab or a line break inside a name starts no new word). For a
  consistent comparator the result is sorted by it.
\<close>

theorem availableSuggestions_space_separated_title_case:
  "set (availableSuggestions localeCompare allRecipes ingredients) =
     {n. n \<noteq> []
         \<and> (\<exists>r \<in> set allRecipes. \<exists>ing \<in> set (recipe_ingredients r).
               n = titleCase (\<lambda>c. c = CHR '' '') True (trim (ri_name ing)))
         \<and> toLowerCase n \<notin> toLowerCase ` ingredient_name ` set ingredients}
   \<and> distinct (availableSuggestions localeCompare allRecipes ingredients)
   \<and> (consistentComparator localeCompare \<longrightarrow>
        sorted_wrt (\<lambda>a b. localeCompare a b \<le> 0)
          (availableSuggestions localeCompare allRecipes ingredients))"
proof -
  have "set (availableSuggestions localeCompare allRecipes ingredients) =
     {n. n \<noteq> []
         \<and> (\<exists>r \<in> set allRecipes. \<exists>ing \<in> set (recipe_ingredients r).
               n = normalizedName (ri_name ing))
         \<and> toLowerCase n \<notin> toLowerCase ` ingredient_name ` set ingredients}"
    by (auto simp: availableSuggestions_def allRecipeIngredientNames_set image_iff)
  moreover have "distinct (availableSuggestions localeCompare allRecipes ingredients)"
    by (simp add: availableSuggestions_def allRecipeIngredientNames_distinct)
  moreover have "sorted_wrt (\<lambda>a b. localeCompare a b \<le> 0)
      (availableSuggestions localeCompare allRecipes ingredients)"
    if "consistentComparator localeCompare"
    using that by (simp add: availableSuggestions_def sorted_js_sort)
  ultimately show ?thesis
    by (simp add: normalizedName_titleCase)
qed

theorem availableSuggestions_space_separated_title_case_witness:
  "consistentComparator ordinalCompare
   \<and> availableSuggestions ordinalCompare (STANDARD_RECIPES @ [Mojito])
       [\<lparr>ingredient_id = ''1'', ingredient_name = ''Lime Juice''\<rparr>]
     = [''Angostura Bitters'', ''Bourbon'', ''Simple Syrup'', ''Tequila'', ''Triple Sec'',
        ''White Rum'']
   \<and> sorted_wrt (\<lambda>a b. ordinalCompare a b \<le> 0)
       (availableSuggestions ordinalCompare (STANDARD_RECIPES @ [Mojito])
          [\<lparr>ingredient_id = ''1'', ingredient_name = ''Lime Juice''\<rparr>])
   \<and> ''Lime Juice'' \<notin> set (availableSuggestions ordinalCompare (STANDARD_RECIPES @ [Mojito])
          [\<lparr>ingredient_id = ''1'', ingredient_name = ''Lime Juice''\<rparr>])"
proof -
  let ?out = "availableSuggestions ordinalCompare (STANDARD_RECIPES @ [Mojito])
       [\<lparr>ingredient_id = ''1'', ingredient_name = ''Lime Juice''\<rparr>]"
  have run: "?out = [''Angostura Bitters'', ''Bourbon'', ''Simple Syrup'', ''Tequila'',
      ''Triple Sec'', ''White Rum'']"
    by code_simp
  have "sorted_wrt (\<lambda>a b. ordinalCompare a b \<le> 0) ?out"
    using availableSuggestions_space_separated_title_case
      [of ordinalCompare "STANDARD_RECIPES @ [Mojito]"
        "[\<lparr>ingredient_id = ''1'', ingredient_name = ''Lime Juice''\<rparr>]"]
      ordinalCompare_consistent
    by blast
  moreover have "''Lime Juice'' \<notin> set ?out"
    unfolding run by simp
  ultimately show ?thesis
    using run ordinalCompare_consistent by simp
qed

theorem availableSuggestions_whitespace_counterexample:
  "availableSuggestions ordinalCompare [Gin_Tonic] [] = [''Gin'' @ [CHR 0x09] @ ''tonic'']
   \<and> spec_suggestIngredients ordinalCompare [Gin_Tonic] [] = [''Gin'' @ [CHR 0x09] @ ''Tonic'']
   \<and> availableSuggestions ordinalCompare [Gin_Tonic] []
       \<noteq> spec_suggestIngredients ordinalCompare [Gin_Tonic] []"
proof -
  have code: "availableSuggestions ordinalCompare [Gin_Tonic] [] = [''Gin'' @ [CHR 0x09] @ ''tonic'']"
    by code_simp
  have spec: "spec_suggestIngredients ordinalCompare [Gin_Tonic] [] =
      [''Gin'' @ [CHR 0x09] @ ''Tonic'']"
    by code_simp
  show ?thesis
    unfolding code spec by simp
qed


section \<open>Properties of the persistence service\<close>

lemma trim_Nil [simp]: "trim [] = []"
  by (simp add: trim_def)

lemma LOWER_Nil_iff [simp]: "LOWER s = [] \<longleftrightarrow> s = []"
  by (simp add: LOWER_def)

lemma unique_name_absent:
  "\<forall>row \<in> set rows. LOWER (irow_name row) \<noteq> LOWER n \<Longrightarrow> n \<notin> irow_name ` set rows"
  by auto

lemma post_api_ingredients_bad:
  "name = None \<or> (\<exists>s. name = Some s \<and> trim s = []) \<Longrightarrow>
     post_api_ingredients fault name d = (Inl BadRequest, d)"
  by (auto simp: post_api_ingredients_def)

lemma post_api_ingredients_dup:
  assumes "trim s \<noteq> []" "\<exists>row \<in> set (tbl_ingredients d). LOWER (irow_name row) = LOWER (trim s)"
  shows "post_api_ingredients None (Some s) d = (Inl Conflict, d)"
proof -
  have "filter (\<lambda>row. LOWER (irow_name row) = LOWER (trim s)) (tbl_ingredients d) \<noteq> []"
    using assms(2) by (simp add: filter_empty_conv)
  moreover have "s \<noteq> []"
    using assms(1) by auto
  ultimately show ?thesis
    using assms(1) by (simp add: post_api_ingredients_def raises_def)
qed

lemma post_api_ingredients_new:
  assumes "trim s \<noteq> []" "\<forall>row \<in> set (tbl_ingredients d). LOWER (irow_name row) \<noteq> LOWER (trim s)"
  shows "post_api_ingredients None (Some s) d =
     (Inr \<lparr>irow_id = seq_ingredients d + 1, irow_name = trim s\<rparr>,
      d\<lparr>seq_ingredients := seq_ingredients d + 1,
         tbl_ingredients := tbl_ingredients d @ [\<lparr>irow_id = seq_ingredients d + 1, irow_name = trim s\<rparr>]\<rparr>)"
proof -
  have "filter (\<lambda>row. LOWER (irow_name row) = LOWER (trim s)) (tbl_ingredients d) = []"
    using assms(2) by (simp add: filter_empty_conv)
  moreover have "s \<noteq> []"
    using assms(1) by auto
  moreover have "trim s \<notin> irow_name ` set (tbl_ingredients d)"
    using assms(2) by (rule unique_name_absent)
  ultimately show ?thesis
    using assms(1) by (simp add: post_api_ingredients_def raises_def insert_ingredient_def Let_def)
qed

lemma post_api_ingredients_created_row:
  assumes "post_api_ingredients None (Some s) d = (Inr row, d1)"
  shows "row \<in> set (tbl_ingredients d1) \<and> irow_name row = trim s"
  using assms
  by (auto simp: post_api_ingredients_def raises_def insert_ingredient_def Let_def
      split: if_splits)


text \<open>
  Claim C4. \<open>POST /api/ingredients\<close> answers 400 when the name is missing or empty after
  trimming. When the storage raises at no statement, it answers 409 and stores nothing
  if a stored ingredient has the same lower-cased name as the trimmed name, and otherwise
  appends exactly one row with the trimmed name and the next identifier and returns it.
  After a request that created an ingredient, a request with a name that has the same
  lower-cased trimmed form answers 409 and leaves the storage as it is.
\<close>

theorem post_api_ingredients_cases:
  "(name = None \<or> (\<exists>s. name = Some s \<and> trim s = [])
      \<longrightarrow> post_api_ingredients fault name d = (Inl BadRequest, d))
   \<and> (trim s \<noteq> []
        \<and> (\<exists>row \<in> set (tbl_ingredients d). LOWER (irow_name row) = LOWER (trim s))
      \<longrightarrow> post_api_ingredients None (Some s) d = (Inl Conflict, d))
   \<and> (trim s \<noteq> []
        \<and> (\<forall>row \<in> set (tbl_ingredients d). LOWER (irow_name row) \<noteq> LOWER (trim s))
      \<longrightarrow> post_api_ingredients None (Some s) d =
            (Inr \<lparr>irow_id = seq_ingredients d + 1, irow_name = trim s\<rparr>,
             d\<lparr>seq_ingredients := seq_ingredients d + 1,
               tbl_ingredients := tbl_ingredients d
                 @ [\<lparr>irow_id = seq_ingredients d + 1, irow_name = trim s\<rparr>]\<rparr>))
   \<and> (LOWER (trim s1) = LOWER (trim s2)
        \<and> post_api_ingredients None (Some s1) d = (Inr created, d1)
      \<longrightarrow> post_api_ingredients None (Some s2) d1 = (Inl Conflict, d1))"
proof -
  have second: "post_api_ingredients None (Some s2) d1 = (Inl Conflict, d1)"
    if same: "LOWER (trim s1) = LOWER (trim s2)"
      and first: "post_api_ingredients None (Some s1) d = (Inr created, d1)"
  proof -
    have "trim s1 \<noteq> []"
      using first by (auto simp: post_api_ingredients_def split: if_splits)
    then have "trim s2 \<noteq> []"
      using same LOWER_Nil_iff by metis
    moreover have "\<exists>row \<in> set (tbl_ingredients d1). LOWER (irow_name row) = LOWER (trim s2)"
      using post_api_ingredients_created_row [OF first] same by metis
    ultimately show ?thesis
      by (rule post_api_ingredients_dup)
  qed
  show ?thesis
    using post_api_ingredients_bad [of name fault d] post_api_ingredients_dup [of s d]
      post_api_ingredients_new [of s d] second
    by blast
qed


lemma bar_db_seq: "seq_ingredients bar_db = 1"
  by (simp add: bar_db_def)

theorem post_api_ingredients_cases_witness:
  "post_api_ingredients None (Some ''   '') bar_db = (Inl BadRequest, bar_db)
   \<and> post_api_ingredients None (Some '' tequila '') bar_db = (Inl Conflict, bar_db)
   \<and> post_api_ingredients None (Some ''  Lime Juice '') bar_db =
       (Inr \<lparr>irow_id = 2, irow_name = ''Lime Juice''\<rparr>,
        bar_db\<lparr>seq_ingredients := 2,
          tbl_ingredients := tbl_ingredients bar_db @ [\<lparr>irow_id = 2, irow_name = ''Lime Juice''\<rparr>]\<rparr>)
   \<and> post_api_ingredients None (Some ''LIME JUICE'')
         (bar_db\<lparr>seq_ingredients := 2,
          tbl_ingredients := tbl_ingredients bar_db @ [\<lparr>irow_id = 2, irow_name = ''Lime Juice''\<rparr>]\<rparr>)
       = (Inl Conflict,
          bar_db\<lparr>seq_ingredients := 2,
          tbl_ingredients := tbl_ingredients bar_db @ [\<lparr>irow_id = 2, irow_name = ''Lime Juice''\<rparr>]\<rparr>)"
proof -
  let ?d1 = "bar_db\<lparr>seq_ingredients := 2,
          tbl_ingredients := tbl_ingredients bar_db @ [\<lparr>irow_id = 2, irow_name = ''Lime Juice''\<rparr>]\<rparr>"
  have blank: "trim ''   '' = []"
    by code_simp
  have tequila: "trim '' tequila '' \<noteq> []"
    "\<exists>row \<in> set (tbl_ingredients bar_db). LOWER (irow_name row) = LOWER (trim '' tequila '')"
    by code_simp+
  have lime: "trim ''  Lime Juice '' = ''Lime Juice''"
    "\<forall>row \<in> set (tbl_ingredients bar_db). LOWER (irow_name row) \<noteq> LOWER (trim ''  Lime Juice '')"
    "LOWER (trim ''  Lime Juice '') = LOWER (trim ''LIME JUICE'')"
    by code_simp+
  have one: "post_api_ingredients None (Some ''   '') bar_db = (Inl BadRequest, bar_db)"
    using post_api_ingredients_cases [of "Some ''   ''" None bar_db] blank by blast
  have two: "post_api_ingredients None (Some '' tequila '') bar_db = (Inl Conflict, bar_db)"
    using post_api_ingredients_cases [of _ _ bar_db "'' tequila ''"] tequila by blast
  have "post_api_ingredients None (Some ''  Lime Juice '') bar_db =
      (Inr \<lparr>irow_id = seq_ingredients bar_db + 1, irow_name = trim ''  Lime Juice ''\<rparr>,
       bar_db\<lparr>seq_ingredients := seq_ingredients bar_db + 1,
         tbl_ingredients := tbl_ingredients bar_db
           @ [\<lparr>irow_id = seq_ingredients bar_db + 1, irow_name = trim ''  Lime Juice ''\<rparr>]\<rparr>)"
    using post_api_ingredients_cases [of _ _ bar_db "''  Lime Juice ''"] lime(1,2) by force
  then have three: "post_api_ingredients None (Some ''  Lime Juice '') bar_db =
      (Inr \<lparr>irow_id = 2, irow_name = ''Lime Juice''\<rparr>, ?d1)"
    by (simp add: bar_db_seq lime(1))
  have four: "post_api_ingredients None (Some ''LIME JUICE'') ?d1 = (Inl Conflict, ?d1)"
    using post_api_ingredients_cases
      [of _ _ bar_db _ "''  Lime Juice ''" "''LIME JUICE''" "\<lparr>irow_id = 2, irow_name = ''Lime Juice''\<rparr>" ?d1]
      lime(3) three
    by blast
  show ?thesis
    using one two three four by simp
qed

lemma order_by_name_set [simp]: "set (order_by_name collation rows) = set rows"
  by (induction rows) (auto simp: order_by_name_def)

lemma length_insert_sorted [simp]: "length (insert_sorted cmp x ys) = Suc (length ys)"
  by (induction ys) auto

lemma order_by_name_length [simp]: "length (order_by_name collation rows) = length rows"
  by (induction rows) (auto simp: order_by_name_def)

lemma consistentComparator_on_names:
  assumes "consistentComparator collation"
  shows "consistentComparator (\<lambda>a b. collation (rrow_name a) (rrow_name b))"
proof -
  have total: "collation a b \<le> 0 \<or> collation b a \<le> 0" for a b
    using assms unfolding consistentComparator_def by blast
  have trans: "collation a b \<le> 0 \<Longrightarrow> collation b c \<le> 0 \<Longrightarrow> collation a c \<le> 0" for a b c
    using assms unfolding consistentComparator_def by blast
  show ?thesis
    unfolding consistentComparator_def
  proof (intro conjI allI impI)
    fix a b
    show "collation (rrow_name a) (rrow_name b) \<le> 0 \<or> collation (rrow_name b) (rrow_name a) \<le> 0"
      by (rule total)
  next
    fix a b c
    assume "collation (rrow_name a) (rrow_name b) \<le> 0 \<and> collation (rrow_name b) (rrow_name c) \<le> 0"
    then show "collation (rrow_name a) (rrow_name c) \<le> 0"
      using trans [of "rrow_name a" "rrow_name b" "rrow_name c"] by (elim conjE)
  qed
qed

lemma order_by_name_sorted:
  assumes "consistentComparator collation"
  shows "sorted_wrt (\<lambda>a b. collation a b \<le> 0) (map rrow_name (order_by_name collation rows))"
proof -
  have "order_by_name collation rows =
      js_sort (\<lambda>a b. collation (rrow_name a) (rrow_name b)) rows"
    by (simp add: order_by_name_def js_sort_def)
  then have "sorted_wrt (\<lambda>a b. collation (rrow_name a) (rrow_name b) \<le> 0)
      (order_by_name collation rows)"
    using sorted_js_sort [OF consistentComparator_on_names [OF assms], of rows] by simp
  then show ?thesis
    by (simp add: sorted_wrt_map)
qed

lemma fetch_ingredients_Some:
  "fetch_ingredients fault k d rows = Some js \<Longrightarrow>
     js = map (\<lambda>recipe. \<lparr>json_id = rrow_id recipe, json_name = rrow_name recipe,
                json_instructions = rrow_instructions recipe,
                json_is_custom = rrow_is_custom recipe,
                json_ingredients = select_recipe_ingredients (rrow_id recipe) d\<rparr>) rows"
  by (induction rows arbitrary: k js) (auto split: if_splits option.splits)

lemma fetch_ingredients_no_fault:
  "fetch_ingredients None k d rows =
     Some (map (\<lambda>recipe. \<lparr>json_id = rrow_id recipe, json_name = rrow_name recipe,
                json_instructions = rrow_instructions recipe,
                json_is_custom = rrow_is_custom recipe,
                json_ingredients = select_recipe_ingredients (rrow_id recipe) d\<rparr>) rows)"
  by (induction rows arbitrary: k) (auto simp: raises_def)

text \<open>
  Claim C9, as amended. \<open>GET /api/recipes\<close> takes no filter: whatever the query
  string, it returns the custom recipes only, each of them once, and every recipe it
  returns carries, nested under it, the \<open>name\<close>, \<open>quantity\<close> and \<open>unit\<close> of its own rows
  of \<open>recipe_ingredients\<close>, in the order of the table. The theorem states in addition
  what \<open>ORDER BY name ASC\<close> gives: for a consistent collation the names of the recipes
  returned are sorted by it.
\<close>

theorem get_api_recipes_custom_only:
  "get_api_recipes collation None query d =
     (Inr (map (\<lambda>recipe. \<lparr>json_id = rrow_id recipe, json_name = rrow_name recipe,
                  json_instructions = rrow_instructions recipe,
                  json_is_custom = rrow_is_custom recipe,
                  json_ingredients =
                    map row_fields (filter (\<lambda>row. rirow_recipe_id row = rrow_id recipe)
                      (tbl_recipe_ingredients d))\<rparr>)
             (order_by_name collation (filter rrow_is_custom (tbl_recipes d)))), d)
   \<and> (fst (get_api_recipes collation fault query d) = Inr recipes \<longrightarrow>
        json_id ` set recipes = rrow_id ` {row \<in> set (tbl_recipes d). rrow_is_custom row}
        \<and> length recipes = length (filter rrow_is_custom (tbl_recipes d))
        \<and> (\<forall>recipe \<in> set recipes. json_is_custom recipe
              \<and> json_ingredients recipe =
                  map row_fields (filter (\<lambda>row. rirow_recipe_id row = json_id recipe)
                    (tbl_recipe_ingredients d)))
        \<and> (consistentComparator collation \<longrightarrow>
              sorted_wrt (\<lambda>a b. collation a b \<le> 0) (map json_name recipes)))
   \<and> get_api_recipes collation fault query d = get_api_recipes collation fault query' d"
proof -
  let ?json = "\<lambda>recipe. \<lparr>json_id = rrow_id recipe, json_name = rrow_name recipe,
                  json_instructions = rrow_instructions recipe,
                  json_is_custom = rrow_is_custom recipe,
                  json_ingredients = select_recipe_ingredients (rrow_id recipe) d\<rparr>"
  let ?rows = "order_by_name collation (filter rrow_is_custom (tbl_recipes d))"
  have closed: "get_api_recipes collation None query d = (Inr (map ?json ?rows), d)"
    by (simp add: get_api_recipes_def raises_def fetch_ingredients_no_fault)
  have shape: "json_id ` set recipes = rrow_id ` {row \<in> set (tbl_recipes d). rrow_is_custom row}
        \<and> length recipes = length (filter rrow_is_custom (tbl_recipes d))
        \<and> (\<forall>recipe \<in> set recipes. json_is_custom recipe
              \<and> json_ingredients recipe = select_recipe_ingredients (json_id recipe) d)
        \<and> (consistentComparator collation \<longrightarrow>
              sorted_wrt (\<lambda>a b. collation a b \<le> 0) (map json_name recipes))"
    if "fst (get_api_recipes collation fault query d) = Inr recipes"
  proof -
    have "fetch_ingredients fault 1 d ?rows = Some recipes"
      using that by (auto simp: get_api_recipes_def Let_def split: if_splits option.splits)
    then have out: "recipes = map ?json ?rows"
      by (rule fetch_ingredients_Some)
    have names: "map json_name recipes = map rrow_name ?rows"
      unfolding out by simp
    have "sorted_wrt (\<lambda>a b. collation a b \<le> 0) (map json_name recipes)"
      if "consistentComparator collation"
      unfolding names using that by (rule order_by_name_sorted)
    moreover have "json_id ` set recipes =
        rrow_id ` {row \<in> set (tbl_recipes d). rrow_is_custom row}"
      unfolding out by (auto simp: image_iff)
    moreover have "length recipes = length (filter rrow_is_custom (tbl_recipes d))"
      unfolding out by simp
    moreover have "\<forall>recipe \<in> set recipes. json_is_custom recipe
        \<and> json_ingredients recipe = select_recipe_ingredients (json_id recipe) d"
      unfolding out by auto
    ultimately show ?thesis
      by blast
  qed
  show ?thesis
    using closed shape
    by (simp add: select_recipe_ingredients_def get_api_recipes_def)
qed

theorem get_api_recipes_custom_only_witness:
  "consistentComparator ordinalCompare
   \<and> map rrow_name (filter rrow_is_custom (tbl_recipes cellar_db)) = [''Mojito'', ''Daiquiri'']
   \<and> fst (get_api_recipes ordinalCompare None [] cellar_db) =
     Inr [\<lparr>json_id = 3, json_name = ''Daiquiri'',
           json_instructions = ''Shake and strain.'', json_is_custom = True,
           json_ingredients =
             [\<lparr>ri_name = ''White Rum'', ri_quantity = ''2'', ri_unit = ''oz''\<rparr>,
              \<lparr>ri_name = ''Lime Juice'', ri_quantity = ''1'', ri_unit = ''oz''\<rparr>]\<rparr>,
          \<lparr>json_id = 2, json_name = ''Mojito'',
           json_instructions = ''Muddle, shake and top with soda.'', json_is_custom = True,
           json_ingredients =
             [\<lparr>ri_name = ''White Rum'', ri_quantity = ''2'', ri_unit = ''oz''\<rparr>,
              \<lparr>ri_name = ''Mint'', ri_quantity = ''6'', ri_unit = ''leaves''\<rparr>]\<rparr>]
   \<and> sorted_wrt (\<lambda>a b. ordinalCompare a b \<le> 0) [''Daiquiri'', ''Mojito'']
   \<and> rrow_id ` {row \<in> set (tbl_recipes cellar_db). rrow_is_custom row} = {3, 2}"
proof -
  let ?out = "[\<lparr>json_id = 3, json_name = ''Daiquiri'',
           json_instructions = ''Shake and strain.'', json_is_custom = True,
           json_ingredients =
             [\<lparr>ri_name = ''White Rum'', ri_quantity = ''2'', ri_unit = ''oz''\<rparr>,
              \<lparr>ri_name = ''Lime Juice'', ri_quantity = ''1'', ri_unit = ''oz''\<rparr>]\<rparr>,
          \<lparr>json_id = 2, json_name = ''Mojito'',
           json_instructions = ''Muddle, shake and top with soda.'', json_is_custom = True,
           json_ingredients =
             [\<lparr>ri_name = ''White Rum'', ri_quantity = ''2'', ri_unit = ''oz''\<rparr>,
              \<lparr>ri_name = ''Mint'', ri_quantity = ''6'', ri_unit = ''leaves''\<rparr>]\<rparr>]"
  have run: "fst (get_api_recipes ordinalCompare None [] cellar_db) = Inr ?out"
    by code_simp
  have stored: "map rrow_name (filter rrow_is_custom (tbl_recipes cellar_db)) =
      [''Mojito'', ''Daiquiri'']"
    by (simp add: cellar_db_def)
  note shape = get_api_recipes_custom_only [of ordinalCompare "[]" cellar_db None ?out]
  have ids: "json_id ` set ?out =
      rrow_id ` {row \<in> set (tbl_recipes cellar_db). rrow_is_custom row}"
    using shape run by blast
  have "sorted_wrt (\<lambda>a b. ordinalCompare a b \<le> 0) (map json_name ?out)"
    using shape run ordinalCompare_consistent by blast
  then have sorted: "sorted_wrt (\<lambda>a b. ordinalCompare a b \<le> 0) [''Daiquiri'', ''Mojito'']"
    by simp
  have "rrow_id ` {row \<in> set (tbl_recipes cellar_db). rrow_is_custom row} = {3, 2}"
    using ids by simp
  then show ?thesis
    using run stored sorted ordinalCompare_consistent by simp
qed

theorem get_api_recipes_no_filter_counterexample:
  "\<lparr>rrow_id = 1, rrow_name = ''Margarita'',
     rrow_instructions = ''Shake with ice and strain into a salt-rimmed glass.'',
     rrow_is_custom = False\<rparr> \<in> set (tbl_recipes bar_db)
   \<and> get_api_recipes ordinalCompare None [(''filter'', ''all'')] bar_db =
       (Inr [\<lparr>json_id = 2, json_name = ''Mojito'',
           json_instructions = ''Muddle, shake and top with soda.'', json_is_custom = True,
           json_ingredients =
             [\<lparr>ri_name = ''White Rum'', ri_quantity = ''2'', ri_unit = ''oz''\<rparr>,
              \<lparr>ri_name = ''Lime Juice'', ri_quantity = ''1'', ri_unit = ''oz''\<rparr>]\<rparr>], bar_db)"
  by code_simp

lemma find_filter:
  "find P xs = (case filter P xs of [] \<Rightarrow> None | x # _ \<Rightarrow> Some x)"
  by (induction xs) auto

lemma ROLLBACK_same [simp]: "ROLLBACK d d = d"
  by (simp add: ROLLBACK_def)

lemma ROLLBACK_no_seq [simp]:
  "seq_ingredients tx = seq_ingredients d \<Longrightarrow> seq_recipes tx = seq_recipes d \<Longrightarrow>
     seq_recipe_ingredients tx = seq_recipe_ingredients d \<Longrightarrow> ROLLBACK d tx = d"
  by (cases d; cases tx) (simp add: ROLLBACK_def)

lemma delete_api_recipes_failure:
  "fst (delete_api_recipes fault ident d) = Inl e \<Longrightarrow> snd (delete_api_recipes fault ident d) = d"
  by (auto simp: delete_api_recipes_def delete_api_recipes_try_def BEGIN_def COMMIT_def Let_def
      split: if_splits list.splits sum.splits prod.splits)

lemma delete_api_recipes_absent:
  assumes "valid_id ident" "\<forall>row \<in> set (tbl_recipes d). rrow_id row \<noteq> to_integer ident"
  shows "delete_api_recipes None ident d = (Inl NotFound, d)"
proof -
  have "filter (\<lambda>row. rrow_id row = to_integer ident) (tbl_recipes d) = []"
    using assms(2) by (simp add: filter_empty_conv)
  then show ?thesis
    using assms(1)
    by (simp add: delete_api_recipes_def delete_api_recipes_try_def BEGIN_def raises_def)
qed

lemma delete_api_recipes_standard:
  assumes "valid_id ident"
    "find (\<lambda>row. rrow_id row = to_integer ident) (tbl_recipes d) = Some r" "\<not> rrow_is_custom r"
  shows "delete_api_recipes None ident d = (Inl Forbidden, d)"
proof -
  obtain rest where "filter (\<lambda>row. rrow_id row = to_integer ident) (tbl_recipes d) = r # rest"
    using assms(2) by (auto simp: find_filter split: list.splits)
  then show ?thesis
    using assms(1,3)
    by (simp add: delete_api_recipes_def delete_api_recipes_try_def BEGIN_def raises_def)
qed

lemma delete_api_recipes_custom:
  assumes "valid_id ident"
    "find (\<lambda>row. rrow_id row = to_integer ident) (tbl_recipes d) = Some r" "rrow_is_custom r"
  shows "delete_api_recipes None ident d =
     (Inr r, d\<lparr>tbl_recipes := filter (\<lambda>row. rrow_id row \<noteq> to_integer ident) (tbl_recipes d),
              tbl_recipe_ingredients :=
                filter (\<lambda>row. rirow_recipe_id row \<noteq> to_integer ident) (tbl_recipe_ingredients d)\<rparr>)"
proof -
  obtain rest where "filter (\<lambda>row. rrow_id row = to_integer ident) (tbl_recipes d) = r # rest"
    using assms(2) by (auto simp: find_filter split: list.splits)
  then show ?thesis
    using assms(1,3)
    by (simp add: delete_api_recipes_def delete_api_recipes_try_def BEGIN_def COMMIT_def
        raises_def Let_def)
qed

lemma delete_api_recipes_custom_fault:
  assumes "valid_id ident"
    "find (\<lambda>row. rrow_id row = to_integer ident) (tbl_recipes d) = Some r" "rrow_is_custom r"
    "k \<le> 4"
  shows "delete_api_recipes (Some k) ident d = (Inl InternalServerError, d)"
proof -
  obtain rest where "filter (\<lambda>row. rrow_id row = to_integer ident) (tbl_recipes d) = r # rest"
    using assms(2) by (auto simp: find_filter split: list.splits)
  moreover have "k = 0 \<or> k = 1 \<or> k = 2 \<or> k = 3 \<or> k = 4"
    using assms(4) by arith
  ultimately show ?thesis
    using assms(1,3)
    by (auto simp: delete_api_recipes_def delete_api_recipes_try_def BEGIN_def COMMIT_def
        raises_def Let_def)
qed


text \<open>
  Claim C3. For an identifier of decimal digits and a storage that raises at no
  statement, \<open>DELETE /api/recipes/:id\<close> answers 404 when no recipe has the identifier,
  answers 403 and leaves the storage as it is when the recipe is a standard one, and
  otherwise returns the recipe and removes its row and all its ingredient rows, so that
  no ingredient row of the recipe is left and nothing else changes. If the storage
  raises at any of the five statements of the deletion, the answer is 500 and the storage
  is as before; more generally every response that is not a success leaves the storage
  as it was.
\<close>

theorem delete_api_recipes_cases:
  "(valid_id ident \<and> (\<forall>row \<in> set (tbl_recipes d). rrow_id row \<noteq> to_integer ident)
      \<longrightarrow> delete_api_recipes None ident d = (Inl NotFound, d))
   \<and> (valid_id ident
        \<and> find (\<lambda>row. rrow_id row = to_integer ident) (tbl_recipes d) = Some r
        \<and> \<not> rrow_is_custom r
      \<longrightarrow> delete_api_recipes None ident d = (Inl Forbidden, d))
   \<and> (valid_id ident
        \<and> find (\<lambda>row. rrow_id row = to_integer ident) (tbl_recipes d) = Some r
        \<and> rrow_is_custom r
      \<longrightarrow> fst (delete_api_recipes None ident d) = Inr r
          \<and> tbl_recipes (snd (delete_api_recipes None ident d)) =
              filter (\<lambda>row. rrow_id row \<noteq> to_integer ident) (tbl_recipes d)
          \<and> tbl_recipe_ingredients (snd (delete_api_recipes None ident d)) =
              filter (\<lambda>row. rirow_recipe_id row \<noteq> to_integer ident) (tbl_recipe_ingredients d)
          \<and> tbl_ingredients (snd (delete_api_recipes None ident d)) = tbl_ingredients d
          \<and> length (filter (\<lambda>row. rirow_recipe_id row = to_integer ident)
                (tbl_recipe_ingredients (snd (delete_api_recipes None ident d)))) = 0
          \<and> (k \<le> 4 \<longrightarrow> delete_api_recipes (Some k) ident d = (Inl InternalServerError, d)))
   \<and> (fst (delete_api_recipes fault ident d) = Inl e
      \<longrightarrow> snd (delete_api_recipes fault ident d) = d)"
proof (intro conjI impI)
  assume "valid_id ident \<and> (\<forall>row \<in> set (tbl_recipes d). rrow_id row \<noteq> to_integer ident)"
  then show "delete_api_recipes None ident d = (Inl NotFound, d)"
    using delete_api_recipes_absent by blast
next
  assume "valid_id ident
        \<and> find (\<lambda>row. rrow_id row = to_integer ident) (tbl_recipes d) = Some r
        \<and> \<not> rrow_is_custom r"
  then show "delete_api_recipes None ident d = (Inl Forbidden, d)"
    using delete_api_recipes_standard by blast
next
  assume "fst (delete_api_recipes fault ident d) = Inl e"
  then show "snd (delete_api_recipes fault ident d) = d"
    by (rule delete_api_recipes_failure)
next
  assume custom: "valid_id ident
        \<and> find (\<lambda>row. rrow_id row = to_integer ident) (tbl_recipes d) = Some r
        \<and> rrow_is_custom r"
  note result = delete_api_recipes_custom [of ident d r]
  show "fst (delete_api_recipes None ident d) = Inr r"
    using custom result by simp
  show "tbl_recipes (snd (delete_api_recipes None ident d)) =
      filter (\<lambda>row. rrow_id row \<noteq> to_integer ident) (tbl_recipes d)"
    using custom result by simp
  show "tbl_recipe_ingredients (snd (delete_api_recipes None ident d)) =
      filter (\<lambda>row. rirow_recipe_id row \<noteq> to_integer ident) (tbl_recipe_ingredients d)"
    using custom result by simp
  show "tbl_ingredients (snd (delete_api_recipes None ident d)) = tbl_ingredients d"
    using custom result by simp
  show "length (filter (\<lambda>row. rirow_recipe_id row = to_integer ident)
      (tbl_recipe_ingredients (snd (delete_api_recipes None ident d)))) = 0"
    using custom result by (simp add: filter_empty_conv)
  show "delete_api_recipes (Some k) ident d = (Inl InternalServerError, d)" if "k \<le> 4"
    using custom that delete_api_recipes_custom_fault by blast
qed

theorem delete_api_recipes_cases_witness:
  "delete_api_recipes None ''7'' bar_db = (Inl NotFound, bar_db)
   \<and> delete_api_recipes None ''1'' bar_db = (Inl Forbidden, bar_db)
   \<and> fst (delete_api_recipes None ''2'' bar_db) =
       Inr \<lparr>rrow_id = 2, rrow_name = ''Mojito'',
            rrow_instructions = ''Muddle, shake and top with soda.'', rrow_is_custom = True\<rparr>
   \<and> length (filter (\<lambda>row. rirow_recipe_id row = to_integer ''2'')
        (tbl_recipe_ingredients (snd (delete_api_recipes None ''2'' bar_db)))) = 0
   \<and> map rirow_id (tbl_recipe_ingredients (snd (delete_api_recipes None ''2'' bar_db))) = [1, 3]
   \<and> delete_api_recipes (Some 3) ''2'' bar_db = (Inl InternalServerError, bar_db)"
proof -
  let ?mojito = "\<lparr>rrow_id = 2, rrow_name = ''Mojito'',
            rrow_instructions = ''Muddle, shake and top with soda.'', rrow_is_custom = True\<rparr>"
  let ?margarita = "\<lparr>rrow_id = 1, rrow_name = ''Margarita'',
            rrow_instructions = ''Shake with ice and strain into a salt-rimmed glass.'',
            rrow_is_custom = False\<rparr>"
  have seven: "valid_id ''7''"
    "\<forall>row \<in> set (tbl_recipes bar_db). rrow_id row \<noteq> to_integer ''7''"
    by code_simp+
  have one: "valid_id ''1''"
    "find (\<lambda>row. rrow_id row = to_integer ''1'') (tbl_recipes bar_db) = Some ?margarita"
    "\<not> rrow_is_custom ?margarita"
    by code_simp+
  have two: "valid_id ''2''"
    "find (\<lambda>row. rrow_id row = to_integer ''2'') (tbl_recipes bar_db) = Some ?mojito"
    "rrow_is_custom ?mojito" "(3::nat) \<le> 4"
    by code_simp+
  have left: "map rirow_id (filter (\<lambda>row. rirow_recipe_id row \<noteq> to_integer ''2'')
      (tbl_recipe_ingredients bar_db)) = [1, 3]"
    by code_simp
  have a: "delete_api_recipes None ''7'' bar_db = (Inl NotFound, bar_db)"
    using delete_api_recipes_cases [of "''7''" bar_db] seven by blast
  have b: "delete_api_recipes None ''1'' bar_db = (Inl Forbidden, bar_db)"
    using delete_api_recipes_cases [of "''1''" bar_db ?margarita] one by blast
  note c = delete_api_recipes_cases [of "''2''" bar_db ?mojito 3]
  have c1: "fst (delete_api_recipes None ''2'' bar_db) = Inr ?mojito"
    using c two by blast
  have c2: "length (filter (\<lambda>row. rirow_recipe_id row = to_integer ''2'')
        (tbl_recipe_ingredients (snd (delete_api_recipes None ''2'' bar_db)))) = 0"
    using c two by blast
  have "tbl_recipe_ingredients (snd (delete_api_recipes None ''2'' bar_db)) =
      filter (\<lambda>row. rirow_recipe_id row \<noteq> to_integer ''2'') (tbl_recipe_ingredients bar_db)"
    using c two by blast
  then have c3: "map rirow_id (tbl_recipe_ingredients (snd (delete_api_recipes None ''2'' bar_db)))
      = [1, 3]"
    using left by simp
  have c4: "delete_api_recipes (Some 3) ''2'' bar_db = (Inl InternalServerError, bar_db)"
    using c two by blast
  show ?thesis
    using a b c1 c2 c3 c4 by blast
qed


lemma tables_ROLLBACK [simp]: "tables (ROLLBACK d tx) = tables d"
  by (simp add: tables_def ROLLBACK_def)

lemma insert_recipe_ingredients_Inr:
  "insert_recipe_ingredients fault k rid ings tx = Inr tx' \<Longrightarrow>
     tbl_recipes tx' = tbl_recipes tx \<and> tbl_ingredients tx' = tbl_ingredients tx
     \<and> (\<exists>rows. tbl_recipe_ingredients tx' = tbl_recipe_ingredients tx @ rows
           \<and> map row_fields rows = List.map_filter trimmed_ingredient ings
           \<and> list_all (\<lambda>row. rirow_recipe_id row = rid) rows
           \<and> length rows = length ings)"
proof (induction ings arbitrary: k tx)
  case Nil
  then show ?case by (simp add: map_filter_simps)
next
  case (Cons ing ings)
  from Cons.prems obtain v where v: "trimmed_ingredient ing = Some v"
    and nofault: "\<not> raises fault k"
    and rest: "insert_recipe_ingredients fault (Suc k) rid ings
                 (insert_recipe_ingredient rid v tx) = Inr tx'"
    by (auto split: option.splits if_splits)
  let ?row = "\<lparr>rirow_id = seq_recipe_ingredients tx + 1, rirow_recipe_id = rid,
      rirow_name = ri_name v, rirow_quantity = ri_quantity v, rirow_unit = ri_unit v\<rparr>"
  have step: "tbl_recipe_ingredients (insert_recipe_ingredient rid v tx) =
      tbl_recipe_ingredients tx @ [?row]"
    "tbl_recipes (insert_recipe_ingredient rid v tx) = tbl_recipes tx"
    "tbl_ingredients (insert_recipe_ingredient rid v tx) = tbl_ingredients tx"
    by (simp_all add: insert_recipe_ingredient_def Let_def)
  from Cons.IH [OF rest] obtain rows where
    rows: "tbl_recipe_ingredients tx' = tbl_recipe_ingredients (insert_recipe_ingredient rid v tx) @ rows"
      "map row_fields rows = List.map_filter trimmed_ingredient ings"
      "list_all (\<lambda>row. rirow_recipe_id row = rid) rows" "length rows = length ings"
    and keep: "tbl_recipes tx' = tbl_recipes (insert_recipe_ingredient rid v tx)"
      "tbl_ingredients tx' = tbl_ingredients (insert_recipe_ingredient rid v tx)"
    by blast
  have "row_fields ?row = v"
    by (simp add: row_fields_def)
  then have "tbl_recipe_ingredients tx' = tbl_recipe_ingredients tx @ (?row # rows)
      \<and> map row_fields (?row # rows) = List.map_filter trimmed_ingredient (ing # ings)
      \<and> list_all (\<lambda>row. rirow_recipe_id row = rid) (?row # rows)
      \<and> length (?row # rows) = length (ing # ings)"
    using rows step v by (simp add: map_filter_simps)
  then have "\<exists>rows'. tbl_recipe_ingredients tx' = tbl_recipe_ingredients tx @ rows'
      \<and> map row_fields rows' = List.map_filter trimmed_ingredient (ing # ings)
      \<and> list_all (\<lambda>row. rirow_recipe_id row = rid) rows'
      \<and> length rows' = length (ing # ings)"
    by (rule exI)
  moreover have "tbl_recipes tx' = tbl_recipes tx" "tbl_ingredients tx' = tbl_ingredients tx"
    using keep step by simp_all
  ultimately show ?case
    by simp
qed

lemma post_api_recipes_try_Inr:
  assumes "post_api_recipes_try fault name instructions ings d = Inr (newRecipe, d')"
  shows "newRecipe = \<lparr>rrow_id = seq_recipes d + 1, rrow_name = trim name,
            rrow_instructions = trim instructions, rrow_is_custom = True\<rparr>
     \<and> tbl_recipes d' = tbl_recipes d @ [newRecipe] \<and> tbl_ingredients d' = tbl_ingredients d
     \<and> (\<exists>rows. tbl_recipe_ingredients d' = tbl_recipe_ingredients d @ rows
           \<and> map row_fields rows = List.map_filter trimmed_ingredient ings
           \<and> list_all (\<lambda>row. rirow_recipe_id row = rrow_id newRecipe) rows
           \<and> length rows = length ings)"
proof -
  let ?row = "\<lparr>rrow_id = seq_recipes d + 1, rrow_name = trim name,
            rrow_instructions = trim instructions, rrow_is_custom = True\<rparr>"
  let ?tx = "d\<lparr>seq_recipes := seq_recipes d + 1, tbl_recipes := tbl_recipes d @ [?row]\<rparr>"
  have ins: "insert_recipe (trim name) (trim instructions) True d = (?row, ?tx)"
    by (simp add: insert_recipe_def Let_def)
  from assms have new: "newRecipe = ?row"
    and loop: "insert_recipe_ingredients fault 2 (rrow_id ?row) ings ?tx = Inr d'"
    by (auto simp: post_api_recipes_try_def BEGIN_def COMMIT_def ins Let_def
        split: if_splits sum.splits)
  show ?thesis
    using insert_recipe_ingredients_Inr [OF loop] new by simp
qed

lemma post_api_recipes_success:
  assumes "fst (post_api_recipes fault body d) = Inr created"
  shows "tbl_recipes (snd (post_api_recipes fault body d)) =
       tbl_recipes d @ [\<lparr>rrow_id = json_id created, rrow_name = json_name created,
          rrow_instructions = json_instructions created, rrow_is_custom = json_is_custom created\<rparr>]
     \<and> tbl_ingredients (snd (post_api_recipes fault body d)) = tbl_ingredients d
     \<and> (\<exists>rows. tbl_recipe_ingredients (snd (post_api_recipes fault body d)) =
             tbl_recipe_ingredients d @ rows
           \<and> map row_fields rows = json_ingredients created
           \<and> list_all (\<lambda>row. rirow_recipe_id row = json_id created) rows
           \<and> length rows = (case body_ingredients body of None \<Rightarrow> 0 | Some ings \<Rightarrow> length ings))"
proof -
  from assms obtain name instructions ings newRecipe d' where
    body: "body_name body = Some name" "body_instructions body = Some instructions"
      "body_ingredients body = Some ings"
    and run: "post_api_recipes_try fault name instructions ings d = Inr (newRecipe, d')"
    and out: "post_api_recipes fault body d =
      (Inr \<lparr>json_id = rrow_id newRecipe, json_name = rrow_name newRecipe,
            json_instructions = rrow_instructions newRecipe,
            json_is_custom = rrow_is_custom newRecipe,
            json_ingredients = List.map_filter trimmed_ingredient ings\<rparr>, d')"
    by (auto simp: post_api_recipes_def split: option.splits if_splits sum.splits prod.splits)
  from assms out have created: "created = \<lparr>json_id = rrow_id newRecipe, json_name = rrow_name newRecipe,
            json_instructions = rrow_instructions newRecipe,
            json_is_custom = rrow_is_custom newRecipe,
            json_ingredients = List.map_filter trimmed_ingredient ings\<rparr>"
    by simp
  show ?thesis
    using post_api_recipes_try_Inr [OF run] by (auto simp: out created body)
qed

lemma post_api_recipes_failure:
  "fst (post_api_recipes fault body d) = Inl e \<Longrightarrow>
     tables (snd (post_api_recipes fault body d)) = tables d"
  by (auto simp: post_api_recipes_def split: option.splits if_splits sum.splits prod.splits)

lemma post_api_recipes_bad:
  assumes "falsy (body_name body) \<or> falsy (body_instructions body) \<or> body_ingredients body = None
      \<or> (\<exists>ings. body_ingredients body = Some ings
            \<and> (\<exists>ing \<in> set ings. falsy (ib_name ing) \<or> falsy (ib_quantity ing)))"
  shows "post_api_recipes fault body d = (Inl BadRequest, d)"
proof -
  have "list_ex (\<lambda>ing. falsy (ib_name ing) \<or> falsy (ib_quantity ing)) ings"
    if "body_ingredients body = Some ings"
      "\<exists>ing \<in> set ings. falsy (ib_name ing) \<or> falsy (ib_quantity ing)" for ings
    using that(2) by (simp add: list_ex_iff)
  moreover have "falsy v \<longleftrightarrow> v = None \<or> v = Some []" for v
    by (simp add: falsy_def)
  ultimately show ?thesis
    using assms
    by (cases "body_name body"; cases "body_instructions body"; cases "body_ingredients body")
      (auto simp: post_api_recipes_def)
qed


lemma trimmed_ingredient_valid:
  "\<not> falsy (ib_name ing) \<Longrightarrow> \<not> falsy (ib_quantity ing) \<Longrightarrow> trimmed_ingredient ing \<noteq> None"
  by (auto simp: falsy_def trimmed_ingredient_def split: option.splits)

lemma insert_recipe_ingredients_raise:
  assumes "\<forall>ing \<in> set ings. trimmed_ingredient ing \<noteq> None"
  shows "(\<exists>tx'. insert_recipe_ingredients fault k rid ings tx = Inr tx')
     \<longleftrightarrow> \<not> (\<exists>j. fault = Some j \<and> k \<le> j \<and> j < k + length ings)"
  using assms
proof (induction ings arbitrary: k tx)
  case Nil
  show ?case by simp
next
  case (Cons ing ings)
  obtain v where v: "trimmed_ingredient ing = Some v"
    using Cons.prems by auto
  have rest: "(\<exists>tx'. insert_recipe_ingredients fault (Suc k) rid ings
        (insert_recipe_ingredient rid v tx) = Inr tx')
     \<longleftrightarrow> \<not> (\<exists>j. fault = Some j \<and> Suc k \<le> j \<and> j < Suc k + length ings)"
    using Cons.IH [of "Suc k" "insert_recipe_ingredient rid v tx"] Cons.prems by simp
  show ?case
  proof (cases "raises fault k")
    case True
    then show ?thesis
      by (auto simp: v raises_def)
  next
    case False
    have "(\<exists>j. fault = Some j \<and> k \<le> j \<and> j < k + length (ing # ings))
        \<longleftrightarrow> (\<exists>j. fault = Some j \<and> Suc k \<le> j \<and> j < Suc k + length ings)"
      using False by (auto simp: raises_def Suc_le_eq le_less)
    then show ?thesis
      using False rest by (simp add: v)
  qed
qed

lemma post_api_recipes_try_raise:
  assumes "\<forall>ing \<in> set ings. trimmed_ingredient ing \<noteq> None"
  shows "(\<exists>r. post_api_recipes_try fault name instructions ings d = Inr r)
     \<longleftrightarrow> \<not> (\<exists>j. fault = Some j \<and> j \<le> length ings + 2)"
proof -
  let ?row = "\<lparr>rrow_id = seq_recipes d + 1, rrow_name = trim name,
            rrow_instructions = trim instructions, rrow_is_custom = True\<rparr>"
  let ?tx = "d\<lparr>seq_recipes := seq_recipes d + 1, tbl_recipes := tbl_recipes d @ [?row]\<rparr>"
  have ins: "insert_recipe (trim name) (trim instructions) True d = (?row, ?tx)"
    by (simp add: insert_recipe_def Let_def)
  note loop = insert_recipe_ingredients_raise [OF assms, of fault 2 "rrow_id ?row" ?tx]
  show ?thesis
  proof (cases "\<exists>j. fault = Some j \<and> 2 \<le> j \<and> j < 2 + length ings")
    case True
    then have "\<not> (\<exists>tx'. insert_recipe_ingredients fault 2 (rrow_id ?row) ings ?tx = Inr tx')"
      using loop by simp
    then have "\<exists>tx'. insert_recipe_ingredients fault 2 (rrow_id ?row) ings ?tx = Inl tx'"
      by (cases "insert_recipe_ingredients fault 2 (rrow_id ?row) ings ?tx") auto
    then show ?thesis
      using True
      by (auto simp: post_api_recipes_try_def BEGIN_def COMMIT_def ins raises_def)
  next
    case False
    then obtain tx' where "insert_recipe_ingredients fault 2 (rrow_id ?row) ings ?tx = Inr tx'"
      using loop by blast
    moreover have "(\<exists>j. fault = Some j \<and> j \<le> length ings + 2)
        \<longleftrightarrow> raises fault 0 \<or> raises fault 1 \<or> raises fault (2 + length ings)"
      using False by (cases fault) (auto simp: raises_def)
    ultimately show ?thesis
      by (auto simp: post_api_recipes_try_def BEGIN_def COMMIT_def ins)
  qed
qed

lemma post_api_recipes_valid:
  assumes "\<not> falsy (body_name body)" "\<not> falsy (body_instructions body)"
    "body_ingredients body = Some ings"
    "\<forall>ing \<in> set ings. \<not> falsy (ib_name ing) \<and> \<not> falsy (ib_quantity ing)"
  shows "(\<exists>created. fst (post_api_recipes fault body d) = Inr created)
           \<longleftrightarrow> \<not> (\<exists>j. fault = Some j \<and> j \<le> length ings + 2)"
    and "fst (post_api_recipes fault body d) \<noteq> Inl BadRequest"
proof -
  obtain name instructions where body: "body_name body = Some name" "name \<noteq> []"
      "body_instructions body = Some instructions" "instructions \<noteq> []"
    using assms(1,2) by (auto simp: falsy_def)
  have no_bad: "\<not> list_ex (\<lambda>ing. falsy (ib_name ing) \<or> falsy (ib_quantity ing)) ings"
    using assms(4) by (simp add: list_ex_iff)
  have "\<forall>ing \<in> set ings. trimmed_ingredient ing \<noteq> None"
    using assms(4) trimmed_ingredient_valid by blast
  note run = post_api_recipes_try_raise [OF this, of fault name instructions d]
  have unfold: "post_api_recipes fault body d =
      (case post_api_recipes_try fault name instructions ings d of
         Inl tx \<Rightarrow> (Inl InternalServerError, ROLLBACK d tx)
       | Inr (newRecipe, d') \<Rightarrow>
           (Inr \<lparr>json_id = rrow_id newRecipe, json_name = rrow_name newRecipe,
                 json_instructions = rrow_instructions newRecipe,
                 json_is_custom = rrow_is_custom newRecipe,
                 json_ingredients = List.map_filter trimmed_ingredient ings\<rparr>, d'))"
    using body assms(3) no_bad by (simp add: post_api_recipes_def)
  show "(\<exists>created. fst (post_api_recipes fault body d) = Inr created)
           \<longleftrightarrow> \<not> (\<exists>j. fault = Some j \<and> j \<le> length ings + 2)"
    unfolding run [symmetric] unfold
    by (cases "post_api_recipes_try fault name instructions ings d") auto
  show "fst (post_api_recipes fault body d) \<noteq> Inl BadRequest"
    unfolding unfold
    by (cases "post_api_recipes_try fault name instructions ings d") auto
qed


text \<open>
  Claim C1. \<open>POST /api/recipes\<close> is all or nothing. When it answers with the created
  recipe, the storage holds one new recipe row and, after the rows that were there, one
  new ingredient row per ingredient of the request, all carrying the new recipe's
  identifier and the values returned. When it answers with any failure, by validation
  or because the storage raised, the rows of the three tables (and so the row counts of
  \<open>recipes\<close> and \<open>recipe_ingredients\<close>) are those before the request. A request with an
  ingredient without a quantity is answered 400 with the storage untouched, and a
  statement of the transaction that raises, \<open>COMMIT\<close> included, always makes the request
  fail.
\<close>

theorem post_api_recipes_atomic:
  "(fst (post_api_recipes fault body d) = Inr created \<longrightarrow>
       tbl_recipes (snd (post_api_recipes fault body d)) =
         tbl_recipes d @ [\<lparr>rrow_id = json_id created, rrow_name = json_name created,
            rrow_instructions = json_instructions created,
            rrow_is_custom = json_is_custom created\<rparr>]
       \<and> tbl_ingredients (snd (post_api_recipes fault body d)) = tbl_ingredients d
       \<and> (\<exists>rows. tbl_recipe_ingredients (snd (post_api_recipes fault body d)) =
               tbl_recipe_ingredients d @ rows
             \<and> map row_fields rows = json_ingredients created
             \<and> list_all (\<lambda>row. rirow_recipe_id row = json_id created) rows
             \<and> length rows =
                 (case body_ingredients body of None \<Rightarrow> 0 | Some ings \<Rightarrow> length ings)))
   \<and> (fst (post_api_recipes fault body d) = Inl e \<longrightarrow>
        tables (snd (post_api_recipes fault body d)) = tables d
        \<and> length (tbl_recipes (snd (post_api_recipes fault body d))) = length (tbl_recipes d)
        \<and> length (tbl_recipe_ingredients (snd (post_api_recipes fault body d))) =
            length (tbl_recipe_ingredients d))
   \<and> (body_ingredients body = Some ings \<and> ing \<in> set ings \<and> falsy (ib_quantity ing) \<longrightarrow>
        post_api_recipes fault body d = (Inl BadRequest, d))
   \<and> (\<not> falsy (body_name body) \<and> \<not> falsy (body_instructions body)
        \<and> body_ingredients body = Some ings
        \<and> (\<forall>ing \<in> set ings. \<not> falsy (ib_name ing) \<and> \<not> falsy (ib_quantity ing))
        \<and> k \<le> length ings + 2 \<longrightarrow>
        (\<exists>e. fst (post_api_recipes (Some k) body d) = Inl e))"
proof (intro conjI impI)
  assume ok: "fst (post_api_recipes fault body d) = Inr created"
  note rows = post_api_recipes_success [OF ok]
  show "tbl_recipes (snd (post_api_recipes fault body d)) =
         tbl_recipes d @ [\<lparr>rrow_id = json_id created, rrow_name = json_name created,
            rrow_instructions = json_instructions created,
            rrow_is_custom = json_is_custom created\<rparr>]"
    using rows by blast
  show "tbl_ingredients (snd (post_api_recipes fault body d)) = tbl_ingredients d"
    using rows by blast
  show "\<exists>rows. tbl_recipe_ingredients (snd (post_api_recipes fault body d)) =
               tbl_recipe_ingredients d @ rows
             \<and> map row_fields rows = json_ingredients created
             \<and> list_all (\<lambda>row. rirow_recipe_id row = json_id created) rows
             \<and> length rows =
                 (case body_ingredients body of None \<Rightarrow> 0 | Some ings \<Rightarrow> length ings)"
    using rows by blast
next
  assume bad: "fst (post_api_recipes fault body d) = Inl e"
  have same: "tables (snd (post_api_recipes fault body d)) = tables d"
    using bad by (rule post_api_recipes_failure)
  then show "tables (snd (post_api_recipes fault body d)) = tables d" .
  show "length (tbl_recipes (snd (post_api_recipes fault body d))) = length (tbl_recipes d)"
    using same by (simp add: tables_def)
  show "length (tbl_recipe_ingredients (snd (post_api_recipes fault body d))) =
            length (tbl_recipe_ingredients d)"
    using same by (simp add: tables_def)
next
  assume "body_ingredients body = Some ings \<and> ing \<in> set ings \<and> falsy (ib_quantity ing)"
  then show "post_api_recipes fault body d = (Inl BadRequest, d)"
    by (intro post_api_recipes_bad) blast
next
  assume valid: "\<not> falsy (body_name body) \<and> \<not> falsy (body_instructions body)
        \<and> body_ingredients body = Some ings
        \<and> (\<forall>ing \<in> set ings. \<not> falsy (ib_name ing) \<and> \<not> falsy (ib_quantity ing))
        \<and> k \<le> length ings + 2"
  then have "\<not> (\<exists>created. fst (post_api_recipes (Some k) body d) = Inr created)"
    using post_api_recipes_valid(1) [of body ings "Some k" d] by simp
  then show "\<exists>e. fst (post_api_recipes (Some k) body d) = Inl e"
    by (cases "fst (post_api_recipes (Some k) body d)") auto
qed

theorem post_api_recipes_atomic_witness:
  "fst (post_api_recipes None daiquiri_body bar_db) =
     Inr \<lparr>json_id = 3, json_name = ''Daiquiri'', json_instructions = ''Shake and strain.'',
          json_is_custom = True,
          json_ingredients =
            [\<lparr>ri_name = ''White Rum'', ri_quantity = ''2'', ri_unit = ''oz''\<rparr>,
             \<lparr>ri_name = ''Lime Juice'', ri_quantity = ''1'', ri_unit = []\<rparr>]\<rparr>
   \<and> tbl_recipes (snd (post_api_recipes None daiquiri_body bar_db)) =
       tbl_recipes bar_db @ [\<lparr>rrow_id = 3, rrow_name = ''Daiquiri'',
          rrow_instructions = ''Shake and strain.'', rrow_is_custom = True\<rparr>]
   \<and> fst (post_api_recipes (Some 3) daiquiri_body bar_db) = Inl InternalServerError
   \<and> tables (snd (post_api_recipes (Some 3) daiquiri_body bar_db)) = tables bar_db
   \<and> post_api_recipes None daiquiri_body_no_quantity bar_db = (Inl BadRequest, bar_db)"
proof -
  let ?created = "\<lparr>json_id = 3, json_name = ''Daiquiri'', json_instructions = ''Shake and strain.'',
          json_is_custom = True,
          json_ingredients =
            [\<lparr>ri_name = ''White Rum'', ri_quantity = ''2'', ri_unit = ''oz''\<rparr>,
             \<lparr>ri_name = ''Lime Juice'', ri_quantity = ''1'', ri_unit = []\<rparr>]\<rparr>"
  let ?missing = "\<lparr>ib_name = Some ''Lime Juice'', ib_quantity = None, ib_unit = None\<rparr>"
  have ok: "fst (post_api_recipes None daiquiri_body bar_db) = Inr ?created"
    by code_simp
  have bad: "fst (post_api_recipes (Some 3) daiquiri_body bar_db) = Inl InternalServerError"
    by code_simp
  have missing: "body_ingredients daiquiri_body_no_quantity =
      Some [\<lparr>ib_name = Some ''White Rum '', ib_quantity = Some '' 2'', ib_unit = Some '' oz ''\<rparr>,
        ?missing]"
    "falsy (ib_quantity ?missing)"
    by (simp_all add: daiquiri_body_no_quantity_def falsy_def)
  have "tbl_recipes (snd (post_api_recipes None daiquiri_body bar_db)) =
       tbl_recipes bar_db @ [\<lparr>rrow_id = json_id ?created, rrow_name = json_name ?created,
            rrow_instructions = json_instructions ?created,
            rrow_is_custom = json_is_custom ?created\<rparr>]"
    using post_api_recipes_atomic [of None daiquiri_body bar_db ?created] ok by blast
  moreover have "tables (snd (post_api_recipes (Some 3) daiquiri_body bar_db)) = tables bar_db"
    using post_api_recipes_atomic [of "Some 3" daiquiri_body bar_db _ InternalServerError] bad
    by blast
  moreover have "post_api_recipes None daiquiri_body_no_quantity bar_db = (Inl BadRequest, bar_db)"
    using post_api_recipes_atomic [of None daiquiri_body_no_quantity bar_db _ _
        "[\<lparr>ib_name = Some ''White Rum '', ib_quantity = Some '' 2'', ib_unit = Some '' oz ''\<rparr>,
          ?missing]" ?missing]
      missing by simp
  ultimately show ?thesis
    using ok bad by simp
qed


lemma stored_as_trimmed:
  assumes "\<forall>ing \<in> set ings. \<exists>n q. ib_name ing = Some n \<and> ib_quantity ing = Some q"
  shows "list_all2 (\<lambda>ing stored.
            (\<exists>n. ib_name ing = Some n \<and> ri_name stored = trim n)
            \<and> (\<exists>q. ib_quantity ing = Some q \<and> ri_quantity stored = trim q)
            \<and> ri_unit stored = (case ib_unit ing of None \<Rightarrow> [] | Some u \<Rightarrow> trim u))
          ings (List.map_filter trimmed_ingredient ings)"
  using assms
proof (induction ings)
  case Nil
  show ?case by (simp add: map_filter_simps)
next
  case (Cons ing ings)
  obtain n q where "ib_name ing = Some n" "ib_quantity ing = Some q"
    using Cons.prems by auto
  then show ?case
    using Cons by (simp add: map_filter_simps trimmed_ingredient_def)
qed

lemma trim_not_Nil: "trim s \<noteq> [] \<Longrightarrow> s \<noteq> []"
  by (auto simp: trim_def)

text \<open>
  Claim C2, as amended. \<open>POST /api/recipes\<close> answers 400, touching nothing, when the
  name or the instructions are missing or empty, when \<open>ingredients\<close> is not an array, or
  when an ingredient of the array has a missing or empty name or quantity; the array
  itself may be empty. When the name and the instructions are non-empty after trimming
  and every ingredient has a name and a quantity that are non-empty after trimming, and
  the storage raises at no statement, it succeeds: it returns the recipe with the next
  identifier, the trimmed name and instructions, and the ingredients trimmed, a missing
  unit being the empty string, and these are the values of the rows it stored.
\<close>

theorem post_api_recipes_validation:
  "(falsy (body_name body) \<or> falsy (body_instructions body) \<or> body_ingredients body = None
      \<or> (\<exists>ings. body_ingredients body = Some ings
            \<and> (\<exists>ing \<in> set ings. falsy (ib_name ing) \<or> falsy (ib_quantity ing)))
     \<longrightarrow> post_api_recipes fault body d = (Inl BadRequest, d))
   \<and> (body_name body = Some name \<and> trim name \<noteq> []
        \<and> body_instructions body = Some instructions \<and> trim instructions \<noteq> []
        \<and> body_ingredients body = Some ings
        \<and> (\<forall>ing \<in> set ings. \<exists>n q. ib_name ing = Some n \<and> trim n \<noteq> []
                                  \<and> ib_quantity ing = Some q \<and> trim q \<noteq> [])
     \<longrightarrow> (\<exists>created rows.
            fst (post_api_recipes None body d) = Inr created
            \<and> json_id created = seq_recipes d + 1 \<and> json_name created = trim name
            \<and> json_instructions created = trim instructions \<and> json_is_custom created
            \<and> list_all2 (\<lambda>ing stored.
                  (\<exists>n. ib_name ing = Some n \<and> ri_name stored = trim n)
                  \<and> (\<exists>q. ib_quantity ing = Some q \<and> ri_quantity stored = trim q)
                  \<and> ri_unit stored = (case ib_unit ing of None \<Rightarrow> [] | Some u \<Rightarrow> trim u))
                ings (json_ingredients created)
            \<and> tbl_recipes (snd (post_api_recipes None body d)) =
                tbl_recipes d @ [\<lparr>rrow_id = seq_recipes d + 1, rrow_name = trim name,
                  rrow_instructions = trim instructions, rrow_is_custom = True\<rparr>]
            \<and> tbl_recipe_ingredients (snd (post_api_recipes None body d)) =
                tbl_recipe_ingredients d @ rows
            \<and> map row_fields rows = json_ingredients created
            \<and> list_all (\<lambda>row. rirow_recipe_id row = json_id created) rows))"
proof (intro conjI impI)
  assume "falsy (body_name body) \<or> falsy (body_instructions body) \<or> body_ingredients body = None
      \<or> (\<exists>ings. body_ingredients body = Some ings
            \<and> (\<exists>ing \<in> set ings. falsy (ib_name ing) \<or> falsy (ib_quantity ing)))"
  then show "post_api_recipes fault body d = (Inl BadRequest, d)"
    by (rule post_api_recipes_bad)
next
  assume valid: "body_name body = Some name \<and> trim name \<noteq> []
        \<and> body_instructions body = Some instructions \<and> trim instructions \<noteq> []
        \<and> body_ingredients body = Some ings
        \<and> (\<forall>ing \<in> set ings. \<exists>n q. ib_name ing = Some n \<and> trim n \<noteq> []
                                  \<and> ib_quantity ing = Some q \<and> trim q \<noteq> [])"
  then have body: "body_name body = Some name" "name \<noteq> []"
      "body_instructions body = Some instructions" "instructions \<noteq> []"
      "body_ingredients body = Some ings"
    using trim_not_Nil by blast+
  have each: "\<forall>ing \<in> set ings. \<exists>n q. ib_name ing = Some n \<and> ib_quantity ing = Some q"
    using valid by blast
  have present: "\<forall>ing \<in> set ings. \<not> falsy (ib_name ing) \<and> \<not> falsy (ib_quantity ing)"
    using valid trim_not_Nil by (fastforce simp: falsy_def)
  have "\<not> falsy (body_name body)" "\<not> falsy (body_instructions body)"
    using body by (simp_all add: falsy_def)
  then obtain created where created: "fst (post_api_recipes None body d) = Inr created"
    using post_api_recipes_valid(1) [of body ings None d] body(5) present by auto
  then obtain newRecipe d' where
    run: "post_api_recipes_try None name instructions ings d = Inr (newRecipe, d')"
    and json: "created = \<lparr>json_id = rrow_id newRecipe, json_name = rrow_name newRecipe,
            json_instructions = rrow_instructions newRecipe,
            json_is_custom = rrow_is_custom newRecipe,
            json_ingredients = List.map_filter trimmed_ingredient ings\<rparr>"
    and left: "snd (post_api_recipes None body d) = d'"
    using body by (auto simp: post_api_recipes_def split: if_splits sum.splits prod.splits)
  from post_api_recipes_try_Inr [OF run] obtain rows where
    new: "newRecipe = \<lparr>rrow_id = seq_recipes d + 1, rrow_name = trim name,
            rrow_instructions = trim instructions, rrow_is_custom = True\<rparr>"
    and recipes: "tbl_recipes d' = tbl_recipes d @ [newRecipe]"
    and rows: "tbl_recipe_ingredients d' = tbl_recipe_ingredients d @ rows"
      "map row_fields rows = List.map_filter trimmed_ingredient ings"
      "list_all (\<lambda>row. rirow_recipe_id row = rrow_id newRecipe) rows"
    by blast
  have "fst (post_api_recipes None body d) = Inr created
      \<and> json_id created = seq_recipes d + 1 \<and> json_name created = trim name
      \<and> json_instructions created = trim instructions \<and> json_is_custom created
      \<and> list_all2 (\<lambda>ing stored.
            (\<exists>n. ib_name ing = Some n \<and> ri_name stored = trim n)
            \<and> (\<exists>q. ib_quantity ing = Some q \<and> ri_quantity stored = trim q)
            \<and> ri_unit stored = (case ib_unit ing of None \<Rightarrow> [] | Some u \<Rightarrow> trim u))
          ings (json_ingredients created)
      \<and> tbl_recipes (snd (post_api_recipes None body d)) =
          tbl_recipes d @ [\<lparr>rrow_id = seq_recipes d + 1, rrow_name = trim name,
            rrow_instructions = trim instructions, rrow_is_custom = True\<rparr>]
      \<and> tbl_recipe_ingredients (snd (post_api_recipes None body d)) =
          tbl_recipe_ingredients d @ rows
      \<and> map row_fields rows = json_ingredients created
      \<and> list_all (\<lambda>row. rirow_recipe_id row = json_id created) rows"
    using created stored_as_trimmed [OF each] recipes rows
    by (simp add: json new left)
  then show "\<exists>created rows.
            fst (post_api_recipes None body d) = Inr created
            \<and> json_id created = seq_recipes d + 1 \<and> json_name created = trim name
            \<and> json_instructions created = trim instructions \<and> json_is_custom created
            \<and> list_all2 (\<lambda>ing stored.
                  (\<exists>n. ib_name ing = Some n \<and> ri_name stored = trim n)
                  \<and> (\<exists>q. ib_quantity ing = Some q \<and> ri_quantity stored = trim q)
                  \<and> ri_unit stored = (case ib_unit ing of None \<Rightarrow> [] | Some u \<Rightarrow> trim u))
                ings (json_ingredients created)
            \<and> tbl_recipes (snd (post_api_recipes None body d)) =
                tbl_recipes d @ [\<lparr>rrow_id = seq_recipes d + 1, rrow_name = trim name,
                  rrow_instructions = trim instructions, rrow_is_custom = True\<rparr>]
            \<and> tbl_recipe_ingredients (snd (post_api_recipes None body d)) =
                tbl_recipe_ingredients d @ rows
            \<and> map row_fields rows = json_ingredients created
            \<and> list_all (\<lambda>row. rirow_recipe_id row = json_id created) rows"
    by blast
qed

theorem post_api_recipes_validation_witness:
  "post_api_recipes None daiquiri_body_no_quantity bar_db = (Inl BadRequest, bar_db)
   \<and> fst (post_api_recipes None daiquiri_body bar_db) =
       Inr \<lparr>json_id = 3, json_name = ''Daiquiri'', json_instructions = ''Shake and strain.'',
            json_is_custom = True,
            json_ingredients =
              [\<lparr>ri_name = ''White Rum'', ri_quantity = ''2'', ri_unit = ''oz''\<rparr>,
               \<lparr>ri_name = ''Lime Juice'', ri_quantity = ''1'', ri_unit = []\<rparr>]\<rparr>
   \<and> map row_fields (drop 4 (tbl_recipe_ingredients (snd (post_api_recipes None daiquiri_body bar_db))))
       = [\<lparr>ri_name = ''White Rum'', ri_quantity = ''2'', ri_unit = ''oz''\<rparr>,
          \<lparr>ri_name = ''Lime Juice'', ri_quantity = ''1'', ri_unit = []\<rparr>]"
proof -
  let ?rum = "\<lparr>ib_name = Some ''White Rum '', ib_quantity = Some '' 2'', ib_unit = Some '' oz ''\<rparr>"
  let ?missing = "\<lparr>ib_name = Some ''Lime Juice'', ib_quantity = None, ib_unit = None\<rparr>"
  let ?lime = "\<lparr>ib_name = Some ''Lime Juice'', ib_quantity = Some ''1'', ib_unit = None\<rparr>"
  let ?created = "\<lparr>json_id = 3, json_name = ''Daiquiri'', json_instructions = ''Shake and strain.'',
            json_is_custom = True,
            json_ingredients =
              [\<lparr>ri_name = ''White Rum'', ri_quantity = ''2'', ri_unit = ''oz''\<rparr>,
               \<lparr>ri_name = ''Lime Juice'', ri_quantity = ''1'', ri_unit = []\<rparr>]\<rparr>"
  have "\<exists>ings. body_ingredients daiquiri_body_no_quantity = Some ings
      \<and> (\<exists>ing \<in> set ings. falsy (ib_name ing) \<or> falsy (ib_quantity ing))"
    by (simp add: daiquiri_body_no_quantity_def falsy_def)
  then have bad: "post_api_recipes None daiquiri_body_no_quantity bar_db = (Inl BadRequest, bar_db)"
    using post_api_recipes_validation
      [where body = daiquiri_body_no_quantity and fault = None and d = bar_db]
    by blast
  have fields: "body_name daiquiri_body = Some '' Daiquiri ''"
    "body_instructions daiquiri_body = Some ''Shake and strain. ''"
    "body_ingredients daiquiri_body = Some [?rum, ?lime]"
    by (simp_all add: daiquiri_body_def)
  have trims: "trim '' Daiquiri '' \<noteq> []" "trim ''Shake and strain. '' \<noteq> []"
    "trim ''White Rum '' \<noteq> []" "trim '' 2'' \<noteq> []" "trim ''Lime Juice'' \<noteq> []" "trim ''1'' \<noteq> []"
    by code_simp+
  have "\<forall>ing \<in> set [?rum, ?lime]. \<exists>n q. ib_name ing = Some n \<and> trim n \<noteq> []
      \<and> ib_quantity ing = Some q \<and> trim q \<noteq> []"
    using trims by simp
  then obtain created rows where
    ok: "fst (post_api_recipes None daiquiri_body bar_db) = Inr created"
    and stored: "tbl_recipe_ingredients (snd (post_api_recipes None daiquiri_body bar_db)) =
      tbl_recipe_ingredients bar_db @ rows" "map row_fields rows = json_ingredients created"
    using post_api_recipes_validation
      [where body = daiquiri_body and name = "'' Daiquiri ''"
        and instructions = "''Shake and strain. ''" and ings = "[?rum, ?lime]" and d = bar_db]
      fields trims(1,2)
    by blast
  have run: "fst (post_api_recipes None daiquiri_body bar_db) = Inr ?created"
    by code_simp
  have "length (tbl_recipe_ingredients bar_db) = 4"
    by (simp add: bar_db_def)
  then have "map row_fields (drop 4
      (tbl_recipe_ingredients (snd (post_api_recipes None daiquiri_body bar_db)))) =
      json_ingredients created"
    using stored by simp
  moreover have "created = ?created"
    using ok run by simp
  ultimately show ?thesis
    using bad run by simp
qed

theorem post_api_recipes_empty_list_counterexample:
  "body_ingredients neat_body = Some []
   \<and> post_api_recipes None neat_body empty_db =
       (Inr \<lparr>json_id = 1, json_name = ''Neat'', json_instructions = ''Pour.'',
             json_is_custom = True, json_ingredients = []\<rparr>,
        empty_db\<lparr>tbl_recipes := [\<lparr>rrow_id = 1, rrow_name = ''Neat'',
                    rrow_instructions = ''Pour.'', rrow_is_custom = True\<rparr>],
                 seq_recipes := 1\<rparr>)"
  by code_simp

end
